theory Spec2Isabelle
  imports Complex_Main "HOL-Library.Log_Nat"
begin

section \<open>Python floats\<close>

text \<open>
  The risk score of \<^verbatim>\<open>risk_utils.py\<close> is a Python \<^verbatim>\<open>float\<close>, an IEEE 754 binary64
  number, and every \<^verbatim>\<open>risk_score += c\<close> rounds its exact sum to the nearest such number,
  ties to the even significand. A finite float is modelled by the rational number it
  denotes; the rounding is written out.
\<close>

text \<open>
  The number of binary digits of a positive integer (Python's \<^verbatim>\<open>int.bit_length\<close>); 0 for
  the others, which the rounding never asks about.
\<close>

fun bit_length :: "int \<Rightarrow> nat" where
  "bit_length n = (if n \<le> 0 then 0 else Suc (bit_length (n div 2)))"

declare bit_length.simps [simp del]

text \<open>Rounding a rational to the nearest integer, a tie going to the even neighbour.\<close>

definition rne :: "rat \<Rightarrow> int" where
  "rne q = (let f = \<lfloor>q\<rfloor>; d = q - of_int f in
     if d < 1 / 2 then f else if 1 / 2 < d then f + 1 else if even f then f else f + 1)"

text \<open>
  Rounding to a binary format with \<open>p\<close> significant bits whose smallest positive number is
  \<open>2\<^sup>-\<^sup>N\<close>: the magnitude is counted in units of \<open>2\<^sup>-\<^sup>N\<close>, the bits beyond the \<open>p\<close> leading
  ones are rounded away (none, in the subnormal range), and the sign is put back.
  Overflow to infinity is left out: it needs a magnitude of \<open>2\<^sup>1\<^sup>0\<^sup>2\<^sup>4\<close>, and the sums
  formed below stay under 17.
\<close>

definition round_float :: "nat \<Rightarrow> nat \<Rightarrow> rat \<Rightarrow> rat" where
  "round_float p N x =
     (let a = \<bar>x\<bar> * 2 ^ N;
          shift = bit_length \<lfloor>a\<rfloor> - p
      in sgn x * of_int (rne (a / 2 ^ shift)) * 2 ^ shift / 2 ^ N)"

definition round_double :: "rat \<Rightarrow> rat" where
  "round_double = round_float 53 1074"

text \<open>A decimal literal of the source denotes the float nearest to it.\<close>

definition float_lit :: "rat \<Rightarrow> rat" where
  "float_lit q = round_double q"

text \<open>Float addition, as in \<^verbatim>\<open>risk_score += 1.5\<close>.\<close>

definition fadd :: "rat \<Rightarrow> rat \<Rightarrow> rat" where
  "fadd a b = round_double (a + b)"

text \<open>
  The argument \<^verbatim>\<open>bmi\<close> is a float the caller supplies, so it may also be an infinity or
  a NaN. Comparisons follow IEEE 754: every comparison with a NaN is false. An \<^verbatim>\<open>int\<close>
  operand (as in \<^verbatim>\<open>25 <= bmi\<close>) is compared by its exact value.
\<close>

datatype pyfloat = Finite rat | PosInf | NegInf | NaN

fun float_lt :: "pyfloat \<Rightarrow> pyfloat \<Rightarrow> bool" where
  "float_lt NaN _ = False"
| "float_lt _ NaN = False"
| "float_lt (Finite a) (Finite b) = (a < b)"
| "float_lt (Finite _) PosInf = True"
| "float_lt (Finite _) NegInf = False"
| "float_lt NegInf (Finite _) = True"
| "float_lt NegInf PosInf = True"
| "float_lt NegInf NegInf = False"
| "float_lt PosInf _ = False"

fun float_le :: "pyfloat \<Rightarrow> pyfloat \<Rightarrow> bool" where
  "float_le NaN _ = False"
| "float_le _ NaN = False"
| "float_le (Finite a) (Finite b) = (a \<le> b)"
| "float_le (Finite _) PosInf = True"
| "float_le (Finite _) NegInf = False"
| "float_le NegInf _ = True"
| "float_le PosInf PosInf = True"
| "float_le PosInf _ = False"

section \<open>The risk engine: \<^verbatim>\<open>calculate_risk\<close>\<close>

text \<open>
  The function keeps two locals, the accumulator \<^verbatim>\<open>risk_score\<close> and the list
  \<^verbatim>\<open>recommendations\<close>, and runs six \<^verbatim>\<open>if\<close>/\<^verbatim>\<open>elif\<close> chains over them, one per factor.
  Each chain is a function on the pair of locals; the branches, their order, their tests
  and their texts are those of the source. A branch without \<^verbatim>\<open>risk_score += c\<close> leaves
  the accumulator as it is.
\<close>

type_synonym locals = "rat \<times> string list"

definition bmi_assessment :: "pyfloat \<Rightarrow> locals \<Rightarrow> locals" where
  "bmi_assessment bmi = (\<lambda>(risk_score, recommendations).
     if float_lt bmi (Finite (float_lit 18.5)) then
       (fadd risk_score (float_lit 1.0),
        recommendations @ [''Your BMI is below normal. Consider consulting a nutritionist to reach a healthy weight.''])
     else if float_le (Finite (float_lit 18.5)) bmi \<and> float_lt bmi (Finite 25) then
       (risk_score,
        recommendations @ [''Your BMI is in the healthy range. Maintain your current lifestyle!''])
     else if float_le (Finite 25) bmi \<and> float_lt bmi (Finite 30) then
       (fadd risk_score (float_lit 1.5),
        recommendations @ [''Your BMI indicates overweight. Regular exercise and balanced diet can help reduce health risks.''])
     else if float_le (Finite 30) bmi \<and> float_lt bmi (Finite 35) then
       (fadd risk_score (float_lit 2.5),
        recommendations @ [''Your BMI indicates obesity (Class I). Consult a healthcare provider for a weight management plan.''])
     else
       (fadd risk_score (float_lit 3.5),
        recommendations @ [''Your BMI indicates severe obesity. Medical supervision is strongly recommended for weight management.'']))"

definition bp_assessment :: "int \<Rightarrow> locals \<Rightarrow> locals" where
  "bp_assessment bp = (\<lambda>(risk_score, recommendations).
     if bp < 90 then
       (fadd risk_score (float_lit 1.0),
        recommendations @ [''Your blood pressure is low. Monitor for symptoms of hypotension and consult a doctor if concerned.''])
     else if 90 \<le> bp \<and> bp < 120 then
       (risk_score,
        recommendations @ [''Your blood pressure is optimal. Keep up the good work!''])
     else if 120 \<le> bp \<and> bp < 130 then
       (fadd risk_score (float_lit 0.5),
        recommendations @ [''Your blood pressure is elevated. Lifestyle modifications may help prevent hypertension.''])
     else if 130 \<le> bp \<and> bp < 140 then
       (fadd risk_score (float_lit 1.5),
        recommendations @ [''Your blood pressure indicates Stage 1 hypertension. Consult your doctor about management strategies.''])
     else if 140 \<le> bp \<and> bp < 180 then
       (fadd risk_score (float_lit 2.5),
        recommendations @ [''Your blood pressure indicates Stage 2 hypertension. Medical treatment is likely needed.''])
     else
       (fadd risk_score (float_lit 4.0),
        recommendations @ [''Your blood pressure is dangerously high. Seek immediate medical attention!'']))"

definition cholesterol_assessment :: "int \<Rightarrow> locals \<Rightarrow> locals" where
  "cholesterol_assessment cholesterol = (\<lambda>(risk_score, recommendations).
     if cholesterol < 200 then
       (risk_score,
        recommendations @ [''Your cholesterol level is desirable. Continue heart-healthy habits!''])
     else if 200 \<le> cholesterol \<and> cholesterol < 240 then
       (fadd risk_score (float_lit 1.5),
        recommendations @ [''Your cholesterol is borderline high. Consider dietary changes to reduce cardiovascular risk.''])
     else
       (fadd risk_score (float_lit 2.5),
        recommendations @ [''Your cholesterol is high. Consult your doctor about medication and lifestyle changes.'']))"

definition glucose_assessment :: "int \<Rightarrow> locals \<Rightarrow> locals" where
  "glucose_assessment glucose = (\<lambda>(risk_score, recommendations).
     if glucose < 70 then
       (fadd risk_score (float_lit 1.0),
        recommendations @ [''Your glucose level is low. Monitor for hypoglycemia symptoms and consult your doctor.''])
     else if 70 \<le> glucose \<and> glucose < 100 then
       (risk_score,
        recommendations @ [''Your fasting glucose is normal. Maintain a balanced diet!''])
     else if 100 \<le> glucose \<and> glucose < 126 then
       (fadd risk_score (float_lit 1.5),
        recommendations @ [''Your glucose indicates prediabetes. Lifestyle changes can prevent type 2 diabetes.''])
     else
       (fadd risk_score (float_lit 3.0),
        recommendations @ [''Your glucose level suggests diabetes. Consult your doctor for proper diagnosis and management.'']))"

definition age_factor :: "int \<Rightarrow> locals \<Rightarrow> locals" where
  "age_factor age = (\<lambda>(risk_score, recommendations).
     if age < 30 then
       (risk_score, recommendations)
     else if 30 \<le> age \<and> age < 45 then
       (fadd risk_score (float_lit 0.3), recommendations)
     else if 45 \<le> age \<and> age < 60 then
       (fadd risk_score (float_lit 0.8),
        recommendations @ [''Age is a risk factor. Regular health screenings become increasingly important.''])
     else
       (fadd risk_score (float_lit 1.2),
        recommendations @ [''At your age, regular medical check-ups and monitoring are essential.'']))"

definition smoking_factor :: "string \<Rightarrow> locals \<Rightarrow> locals" where
  "smoking_factor smoking = (\<lambda>(risk_score, recommendations).
     if smoking = ''Current smoker'' then
       (fadd risk_score (float_lit 2.0),
        recommendations @ [''Smoking significantly increases health risks. Consider a smoking cessation program.''])
     else if smoking = ''Former smoker'' then
       (fadd risk_score (float_lit 0.5),
        recommendations @ [''Great job quitting smoking! Continue to avoid tobacco products.''])
     else
       (risk_score,
        recommendations @ [''Excellent! Staying smoke-free is one of the best health decisions.'']))"

definition general_recommendations :: "string list" where
  "general_recommendations =
    [''Engage in at least 150 minutes of moderate aerobic activity per week.'',
     ''Stay hydrated and maintain a balanced diet rich in fruits, vegetables, and whole grains.'',
     ''Get 7-9 hours of quality sleep each night.'',
     ''Manage stress through relaxation techniques, meditation, or hobbies.'',
     ''Schedule regular check-ups with your healthcare provider.'']"

text \<open>The last chain: \<^verbatim>\<open>risk_level\<close> and \<^verbatim>\<open>color\<close> from the final score.\<close>

definition risk_level_color :: "rat \<Rightarrow> string \<times> string" where
  "risk_level_color risk_score =
    (if 7 \<le> risk_score then (''High Risk'', ''#E74C3C'')
     else if 4 \<le> risk_score then (''Moderate Risk'', ''#F39C12'')
     else if 2 \<le> risk_score then (''Low-Moderate Risk'', ''#F9A825'')
     else (''Low Risk'', ''#27AE60''))"

definition calculate_risk ::
  "int \<Rightarrow> pyfloat \<Rightarrow> int \<Rightarrow> int \<Rightarrow> int \<Rightarrow> string \<Rightarrow> string \<times> string \<times> rat \<times> string list" where
  "calculate_risk age bmi bp cholesterol glucose smoking =
    (let (risk_score, recommendations) =
           smoking_factor smoking
             (age_factor age
               (glucose_assessment glucose
                 (cholesterol_assessment cholesterol
                   (bp_assessment bp
                     (bmi_assessment bmi (float_lit 0.0, []))))));
         recommendations = recommendations @ general_recommendations;
         (risk_level, color) = risk_level_color risk_score
     in (risk_level, color, risk_score, recommendations))"

text \<open>The four components of the returned tuple.\<close>

definition risk_level_of :: "string \<times> string \<times> rat \<times> string list \<Rightarrow> string" where
  "risk_level_of r = fst r"

definition color_of :: "string \<times> string \<times> rat \<times> string list \<Rightarrow> string" where
  "color_of r = fst (snd r)"

definition score_of :: "string \<times> string \<times> rat \<times> string list \<Rightarrow> rat" where
  "score_of r = fst (snd (snd r))"

definition recommendations_of :: "string \<times> string \<times> rat \<times> string list \<Rightarrow> string list" where
  "recommendations_of r = snd (snd (snd r))"

text \<open>
  The penalty of the bucket a value falls in is what the factor's chain adds to a score
  of \<^verbatim>\<open>0.0\<close>.
\<close>

definition bmi_penalty :: "pyfloat \<Rightarrow> rat" where
  "bmi_penalty bmi = fst (bmi_assessment bmi (float_lit 0.0, []))"

definition bp_penalty :: "int \<Rightarrow> rat" where
  "bp_penalty bp = fst (bp_assessment bp (float_lit 0.0, []))"

definition cholesterol_penalty :: "int \<Rightarrow> rat" where
  "cholesterol_penalty cholesterol = fst (cholesterol_assessment cholesterol (float_lit 0.0, []))"

definition glucose_penalty :: "int \<Rightarrow> rat" where
  "glucose_penalty glucose = fst (glucose_assessment glucose (float_lit 0.0, []))"

definition age_penalty :: "int \<Rightarrow> rat" where
  "age_penalty age = fst (age_factor age (float_lit 0.0, []))"

definition smoking_penalty :: "string \<Rightarrow> rat" where
  "smoking_penalty smoking = fst (smoking_factor smoking (float_lit 0.0, []))"

text \<open>
  The values the accumulator \<^verbatim>\<open>risk_score\<close> takes in one call, in order: the initial
  \<^verbatim>\<open>0.0\<close> and the value after each of the six chains.
\<close>

definition accumulator_trace ::
  "int \<Rightarrow> pyfloat \<Rightarrow> int \<Rightarrow> int \<Rightarrow> int \<Rightarrow> string \<Rightarrow> rat list" where
  "accumulator_trace age bmi bp cholesterol glucose smoking =
    (let s0 = (float_lit 0.0, []);
         s1 = bmi_assessment bmi s0;
         s2 = bp_assessment bp s1;
         s3 = cholesterol_assessment cholesterol s2;
         s4 = glucose_assessment glucose s3;
         s5 = age_factor age s4;
         s6 = smoking_factor smoking s5
     in map fst [s0, s1, s2, s3, s4, s5, s6])"

text \<open>
  The float sum of six penalties, added to \<^verbatim>\<open>0.0\<close> one after the other in the order of the
  source: BMI, blood pressure, cholesterol, glucose, age, smoking.
\<close>

definition penalty_sum :: "rat \<Rightarrow> rat \<Rightarrow> rat \<Rightarrow> rat \<Rightarrow> rat \<Rightarrow> rat \<Rightarrow> rat" where
  "penalty_sum b p c g a s =
     fadd (fadd (fadd (fadd (fadd (fadd (float_lit 0.0) b) p) c) g) a) s"

text \<open>The order of the four risk levels: Low, Low-Moderate, Moderate, High.\<close>

definition severity :: "string \<Rightarrow> nat" where
  "severity risk_level =
    (if risk_level = ''High Risk'' then 3
     else if risk_level = ''Moderate Risk'' then 2
     else if risk_level = ''Low-Moderate Risk'' then 1
     else 0)"

section \<open>The display categorizer \<^verbatim>\<open>calculate_bp_category\<close>\<close>

definition calculate_bp_category :: "int \<Rightarrow> string" where
  "calculate_bp_category bp =
    (if bp < 90 then ''Low''
     else if bp < 120 then ''Normal''
     else if bp < 130 then ''Elevated''
     else if bp < 140 then ''High (Stage 1)''
     else if bp < 180 then ''High (Stage 2)''
     else ''Hypertensive Crisis'')"

text \<open>
  The six buckets of the blood-pressure axis, cut at 90, 120, 130, 140 and 180 and
  numbered from 0: the bucket of a value is the number of cut points at or below it.
  Against this partition the categorizer's labels and the scorer's branches are laid out
  as two tables, bucket by bucket.
\<close>

definition bp_bucket :: "int \<Rightarrow> nat" where
  "bp_bucket bp = length (filter (\<lambda>cut. cut \<le> bp) [90, 120, 130, 140, 180])"

definition bp_category_table :: "string list" where
  "bp_category_table =
    [''Low'', ''Normal'', ''Elevated'', ''High (Stage 1)'', ''High (Stage 2)'',
     ''Hypertensive Crisis'']"

definition bp_scoring_table :: "(rat option \<times> string) list" where
  "bp_scoring_table =
    [(Some 1.0, ''Your blood pressure is low. Monitor for symptoms of hypotension and consult a doctor if concerned.''),
     (None, ''Your blood pressure is optimal. Keep up the good work!''),
     (Some 0.5, ''Your blood pressure is elevated. Lifestyle modifications may help prevent hypertension.''),
     (Some 1.5, ''Your blood pressure indicates Stage 1 hypertension. Consult your doctor about management strategies.''),
     (Some 2.5, ''Your blood pressure indicates Stage 2 hypertension. Medical treatment is likely needed.''),
     (Some 4.0, ''Your blood pressure is dangerously high. Seek immediate medical attention!'')]"

definition score_bucket :: "rat option \<times> string \<Rightarrow> locals \<Rightarrow> locals" where
  "score_bucket b = (\<lambda>(risk_score, recommendations).
     ((case fst b of None \<Rightarrow> risk_score | Some c \<Rightarrow> fadd risk_score (float_lit c)),
      recommendations @ [snd b]))"

section \<open>The recommendation list of \<^verbatim>\<open>generate_pdf\<close>\<close>

text \<open>
  \<^verbatim>\<open>generate_pdf\<close> drives an \<^verbatim>\<open>FPDF\<close> object of the library \<^verbatim>\<open>fpdf\<close>. The part modelled is
  the loop that writes the recommendations,
  \<^verbatim>\<open>for i, rec in enumerate(recommendations[:10], 1)\<close>, as the sequence of calls it makes
  on that object.
\<close>

datatype fpdf_call = Set_font string string nat | Multi_cell nat nat string | Ln nat

definition digit_char :: "nat \<Rightarrow> char" where
  "digit_char d = char_of (48 + d)"

text \<open>\<^verbatim>\<open>str(i)\<close> for a natural number: its decimal digits.\<close>

fun str_nat :: "nat \<Rightarrow> string" where
  "str_nat n = (if n < 10 then [digit_char n] else str_nat (n div 10) @ [digit_char (n mod 10)])"

declare str_nat.simps [simp del]

fun recommendation_calls :: "(nat \<times> string) list \<Rightarrow> fpdf_call list" where
  "recommendation_calls [] = []"
| "recommendation_calls ((i, rec) # rest) =
     Multi_cell 0 6 (str_nat i @ ''. '' @ rec) # Ln 2 # recommendation_calls rest"

definition generate_pdf_recommendations :: "string list \<Rightarrow> fpdf_call list" where
  "generate_pdf_recommendations recommendations =
     Set_font ''Arial'' [] 10 # recommendation_calls (enumerate 1 (take 10 recommendations))"

text \<open>The numbered items of a call sequence: the texts of its \<^verbatim>\<open>multi_cell\<close> calls.\<close>

fun multi_cell_texts :: "fpdf_call list \<Rightarrow> string list" where
  "multi_cell_texts [] = []"
| "multi_cell_texts (Multi_cell w h txt # cs) = txt # multi_cell_texts cs"
| "multi_cell_texts (_ # cs) = multi_cell_texts cs"

section \<open>Properties of the rounding\<close>

subsection \<open>Bit lengths and rounding to an integer\<close>

lemma bit_length_floorlog: "bit_length n = floorlog 2 (nat n)"
proof (induction n rule: bit_length.induct)
  case (1 n)
  show ?case
  proof (cases "n \<le> 0")
    case True
    then show ?thesis by (simp add: bit_length.simps [of n] floorlog_eq_zero_iff)
  next
    case False
    then have "bit_length n = Suc (floorlog 2 (nat (n div 2)))"
      using 1 by (simp add: bit_length.simps [of n])
    also have "nat (n div 2) = nat n div 2" by (simp add: nat_div_distrib)
    also have "Suc (floorlog 2 (nat n div 2)) = floorlog 2 (nat n)"
      using False by (subst (2) compute_floorlog) simp
    finally show ?thesis .
  qed
qed

lemma bit_length_le_iff: "bit_length n \<le> k \<longleftrightarrow> n < 2 ^ k"
proof -
  have "nat n < 2 ^ k \<longleftrightarrow> n < 2 ^ k"
  proof (cases "0 \<le> n")
    case True
    then have "nat n < 2 ^ k \<longleftrightarrow> n < int (2 ^ k)" by (rule nat_less_iff)
    then show ?thesis by simp
  next
    case False
    then have "n < 0" by simp
    moreover have "(0::int) < 2 ^ k" by simp
    ultimately have "n < 2 ^ k" by (rule less_trans)
    with False show ?thesis by simp
  qed
  then show ?thesis by (simp add: bit_length_floorlog floorlog_le_iff)
qed

lemma bit_length_ge: "2 ^ k \<le> n \<Longrightarrow> Suc k \<le> bit_length n"
  using bit_length_le_iff [of n k] by simp

lemma bit_length_eq: "2 ^ k \<le> n \<Longrightarrow> n < 2 ^ Suc k \<Longrightarrow> bit_length n = Suc k"
  using bit_length_ge [of k n] bit_length_le_iff [of n "Suc k"] by simp

lemma bit_length_mono: "m \<le> n \<Longrightarrow> bit_length m \<le> bit_length n"
proof -
  assume "m \<le> n"
  moreover have "n < 2 ^ bit_length n" using bit_length_le_iff [of n "bit_length n"] by simp
  ultimately have "m < 2 ^ bit_length n" by simp
  then show ?thesis by (simp only: bit_length_le_iff)
qed

lemma bit_length_shift: "0 < m \<Longrightarrow> bit_length (m * 2 ^ s) = bit_length m + s"
proof -
  assume m: "0 < m"
  then have "nat (m * 2 ^ s) = nat m * 2 ^ s"
    by (simp add: nat_mult_distrib nat_power_eq)
  moreover have "0 < nat m" using m by simp
  ultimately show ?thesis by (simp add: bit_length_floorlog)
qed

lemma bit_length_zero [simp]: "bit_length 0 = 0"
  by (simp add: bit_length.simps [of 0])

lemma rne_bounds: "\<lfloor>q\<rfloor> \<le> rne q \<and> rne q \<le> \<lfloor>q\<rfloor> + 1"
  by (simp add: rne_def Let_def)

lemma rne_of_int [simp]: "rne (of_int k) = k"
  by (simp add: rne_def Let_def)

lemma rne_zero [simp]: "rne 0 = 0"
  using rne_of_int [of 0] by simp

lemma rne_mono: "x \<le> y \<Longrightarrow> rne x \<le> rne y"
proof -
  assume xy: "x \<le> y"
  then have fl: "\<lfloor>x\<rfloor> \<le> \<lfloor>y\<rfloor>" by (rule floor_mono)
  show ?thesis
  proof (cases "\<lfloor>x\<rfloor> = \<lfloor>y\<rfloor>")
    case True
    with xy have "x - of_int \<lfloor>x\<rfloor> \<le> y - of_int \<lfloor>y\<rfloor>" by simp
    with True show ?thesis by (auto simp: rne_def Let_def)
  next
    case False
    with fl have "\<lfloor>x\<rfloor> + 1 \<le> \<lfloor>y\<rfloor>" by simp
    with rne_bounds [of x] rne_bounds [of y] show ?thesis by linarith
  qed
qed

lemma rne_nonneg: "0 \<le> x \<Longrightarrow> 0 \<le> rne x"
  using rne_mono [of 0 x] rne_of_int [of 0] by simp

lemma round_float_nonneg: "0 \<le> x \<Longrightarrow> 0 \<le> round_float p N x"
  by (simp add: round_float_def Let_def rne_nonneg sgn_if)

lemma round_float_pos_eq:
  assumes "0 \<le> x"
  shows "round_float p N x =
    of_int (rne (x * 2 ^ N / 2 ^ (bit_length \<lfloor>x * 2 ^ N\<rfloor> - p)))
      * 2 ^ (bit_length \<lfloor>x * 2 ^ N\<rfloor> - p) / 2 ^ N"
proof (cases "x = 0")
  case True
  then show ?thesis by (simp add: round_float_def Let_def)
next
  case False
  with assms have "0 < x" by simp
  then show ?thesis by (simp add: round_float_def Let_def)
qed

text \<open>The integer part of a rational against a power of two.\<close>

lemma floor_ge_power: "(2::rat) ^ k \<le> X \<longleftrightarrow> 2 ^ k \<le> \<lfloor>X\<rfloor>"
  by (simp add: le_floor_iff)

lemma floor_less_power: "X < (2::rat) ^ k \<longleftrightarrow> \<lfloor>X\<rfloor> < 2 ^ k"
  by (simp add: floor_less_iff)

lemma scaled_less:
  assumes "bit_length \<lfloor>X\<rfloor> \<le> s + p"
  shows "X / 2 ^ s < (2::rat) ^ p"
proof -
  have "\<lfloor>X\<rfloor> < 2 ^ (s + p)" using assms by (simp only: bit_length_le_iff)
  then have "X < 2 ^ (s + p)" by (simp only: floor_less_power)
  then have "X < 2 ^ p * 2 ^ s" by (simp add: power_add mult.commute)
  then show ?thesis by (simp add: pos_divide_less_eq)
qed

lemma scaled_ge:
  assumes "s + p \<le> bit_length \<lfloor>X\<rfloor>" and "0 < p"
  shows "(2::rat) ^ (p - 1) \<le> X / 2 ^ s"
proof -
  have "\<not> bit_length \<lfloor>X\<rfloor> \<le> s + (p - 1)" using assms by simp
  then have "\<not> \<lfloor>X\<rfloor> < 2 ^ (s + (p - 1))"
    using bit_length_le_iff [of "\<lfloor>X\<rfloor>" "s + (p - 1)"] by blast
  then have "\<not> X < (2::rat) ^ (s + (p - 1))"
    using floor_less_power [of X "s + (p - 1)"] by blast
  then have "(2::rat) ^ (s + (p - 1)) \<le> X" by simp
  then have "2 ^ (p - 1) * 2 ^ s \<le> X" by (simp add: power_add mult.commute)
  then show ?thesis by (simp add: pos_le_divide_eq)
qed

lemma rne_scaled_le:
  assumes "bit_length \<lfloor>X\<rfloor> \<le> s + p"
  shows "rne (X / 2 ^ s) \<le> 2 ^ p"
proof -
  have "X / 2 ^ s \<le> (2::rat) ^ p" using scaled_less [OF assms] by simp
  then have "rne (X / 2 ^ s) \<le> rne ((2::rat) ^ p)" by (rule rne_mono)
  also have "(2::rat) ^ p = of_int (2 ^ p)" by simp
  also have "rne (of_int (2 ^ p)) = 2 ^ p" by (rule rne_of_int)
  finally show ?thesis .
qed

lemma rne_scaled_ge:
  assumes "s + p \<le> bit_length \<lfloor>X\<rfloor>" and "0 < p"
  shows "2 ^ (p - 1) \<le> rne (X / 2 ^ s)"
proof -
  have "rne ((2::rat) ^ (p - 1)) \<le> rne (X / 2 ^ s)"
    using scaled_ge [OF assms] by (rule rne_mono)
  moreover have "(2::rat) ^ (p - 1) = of_int (2 ^ (p - 1))" by simp
  ultimately show ?thesis by (simp only: rne_of_int)
qed

lemma round_float_normal:
  assumes j: "j \<le> N" and p: "0 < p"
    and lo: "2 ^ (p - 1) \<le> x * 2 ^ j" and hi: "x * 2 ^ j < 2 ^ p"
  shows "round_float p N x = of_int (rne (x * 2 ^ j)) / 2 ^ j"
proof -
  have "(0::rat) < 2 ^ (p - 1)" by simp
  with lo have "0 < x * 2 ^ j" by linarith
  then have x0: "0 \<le> x" by (simp add: zero_less_mult_iff)
  define d where "d = N - j"
  have dj: "N = j + d" using j by (simp add: d_def)
  have X: "x * 2 ^ N = (x * 2 ^ j) * 2 ^ d" by (simp add: dj power_add)
  have lo': "(2::rat) ^ (p - 1 + d) \<le> x * 2 ^ N"
    unfolding X power_add using lo by (rule mult_right_mono) simp
  have hi': "x * 2 ^ N < (2::rat) ^ (p + d)"
    unfolding X power_add using hi by (rule mult_strict_right_mono) simp
  define n where "n = \<lfloor>x * 2 ^ N\<rfloor>"
  have nlo: "2 ^ (p - 1 + d) \<le> n" unfolding n_def using lo' by (simp only: floor_ge_power)
  have pd: "Suc (p - 1 + d) = p + d" using p by simp
  have nhi: "n < 2 ^ Suc (p - 1 + d)"
    unfolding n_def pd using hi' by (simp only: floor_less_power)
  have "bit_length n = Suc (p - 1 + d)" using nlo nhi by (rule bit_length_eq)
  then have sh: "bit_length n - p = d" using p by simp
  have "round_float p N x = of_int (rne (x * 2 ^ N / 2 ^ d)) * 2 ^ d / 2 ^ N"
    using round_float_pos_eq [OF x0, of p N] unfolding sh [unfolded n_def] .
  also have "x * 2 ^ N / 2 ^ d = x * 2 ^ j" by (simp add: X)
  also have "of_int (rne (x * 2 ^ j)) * 2 ^ d / 2 ^ N = (of_int (rne (x * 2 ^ j)) / 2 ^ j :: rat)"
    by (simp add: dj power_add)
  finally show ?thesis .
qed

lemma round_float_range:
  assumes "0 \<le> x"
  shows "\<exists>m s. m \<le> 2 ^ p \<and> round_float p N x = of_nat (m * 2 ^ s) / 2 ^ N"
proof -
  define X where "X = x * 2 ^ N"
  define s where "s = bit_length \<lfloor>X\<rfloor> - p"
  define r where "r = rne (X / 2 ^ s)"
  have X0: "0 \<le> X" using assms by (simp add: X_def)
  have "bit_length \<lfloor>X\<rfloor> \<le> s + p" by (simp add: s_def)
  then have rle: "r \<le> 2 ^ p" unfolding r_def by (rule rne_scaled_le)
  have r0: "0 \<le> r" unfolding r_def using X0 by (simp add: rne_nonneg)
  have "round_float p N x = of_int r * 2 ^ s / 2 ^ N"
    unfolding X_def s_def r_def by (rule round_float_pos_eq [OF assms])
  also have "of_int r = (of_nat (nat r) :: rat)" using r0 by simp
  finally have "round_float p N x = of_nat (nat r * 2 ^ s) / 2 ^ N" by simp
  moreover have "nat r \<le> 2 ^ p" using rle by (simp add: nat_le_iff)
  ultimately show ?thesis by blast
qed

subsection \<open>Representable numbers are fixed, and rounding is monotone\<close>

lemma round_float_fix:
  assumes m: "m \<le> 2 ^ p" and p: "0 < p"
  shows "round_float p N (of_nat (m * 2 ^ s) / 2 ^ N) = of_nat (m * 2 ^ s) / 2 ^ N"
proof (cases "m = 0")
  case True
  then show ?thesis by (simp add: round_float_def)
next
  case False
  define x :: rat where "x = of_nat (m * 2 ^ s) / 2 ^ N"
  have x0: "0 \<le> x" by (simp add: x_def)
  have X: "x * 2 ^ N = of_nat (m * 2 ^ s)" by (simp add: x_def)
  have fl: "\<lfloor>x * 2 ^ N\<rfloor> = int m * 2 ^ s"
  proof -
    have "x * 2 ^ N = of_int (int m * 2 ^ s)" unfolding X by simp
    then show ?thesis by (simp only: floor_of_int)
  qed
  have bl: "bit_length \<lfloor>x * 2 ^ N\<rfloor> = bit_length (int m) + s"
    unfolding fl using False by (simp add: bit_length_shift)
  define t where "t = bit_length (int m) + s - p"
  have eq: "round_float p N x = of_int (rne (of_nat (m * 2 ^ s) / 2 ^ t)) * 2 ^ t / 2 ^ N"
    using round_float_pos_eq [OF x0, of p N, unfolded bl] unfolding X t_def .
  have "rat_of_int (rne (of_nat (m * 2 ^ s) / 2 ^ t)) * 2 ^ t = of_nat (m * 2 ^ s)"
  proof (cases "bit_length (int m) \<le> p")
    case True
    then have "t \<le> s" by (simp add: t_def)
    then obtain u where u: "s = u + t" by (metis le_add_diff_inverse2)
    have "(of_nat (m * 2 ^ s) / 2 ^ t :: rat) = of_int (int (m * 2 ^ u))"
      by (simp add: u power_add)
    then have "rne (of_nat (m * 2 ^ s) / 2 ^ t) = int (m * 2 ^ u)"
      by (simp only: rne_of_int)
    then show ?thesis by (simp add: u power_add)
  next
    case False
    then have "2 ^ p \<le> int m" by (simp add: bit_length_le_iff)
    then have "2 ^ p \<le> m" by (metis of_nat_le_iff of_nat_numeral of_nat_power)
    with m have mp: "m = 2 ^ p" by simp
    have "bit_length (int m) = Suc p" unfolding mp by (rule bit_length_eq) simp_all
    then have t: "t = Suc s" by (simp add: t_def)
    obtain q where q: "p = Suc q" using p by (cases p) simp_all
    have "(of_nat (m * 2 ^ s) / 2 ^ t :: rat) = of_int (2 ^ q)"
      by (simp add: mp t q)
    then have "rne (of_nat (m * 2 ^ s) / 2 ^ t) = 2 ^ q"
      by (simp only: rne_of_int)
    then show ?thesis by (simp add: mp t q)
  qed
  with eq show ?thesis by (simp add: x_def)
qed

lemma round_float_idem:
  assumes "0 \<le> x" and "0 < p"
  shows "round_float p N (round_float p N x) = round_float p N x"
proof -
  obtain m s where "m \<le> 2 ^ p" and "round_float p N x = of_nat (m * 2 ^ s) / 2 ^ N"
    using round_float_range [OF assms(1)] by blast
  then show ?thesis using round_float_fix [OF _ assms(2), of m N s] by simp
qed

lemma round_float_mono:
  assumes x0: "0 \<le> x" and xy: "x \<le> y" and p: "0 < p"
  shows "round_float p N x \<le> round_float p N y"
proof -
  have y0: "0 \<le> y" using x0 xy by simp
  define X where "X = x * 2 ^ N"
  define Y where "Y = y * 2 ^ N"
  define sx where "sx = bit_length \<lfloor>X\<rfloor> - p"
  define sy where "sy = bit_length \<lfloor>Y\<rfloor> - p"
  have XY: "X \<le> Y" using xy by (simp add: X_def Y_def)
  have "\<lfloor>X\<rfloor> \<le> \<lfloor>Y\<rfloor>" using XY by (rule floor_mono)
  then have "bit_length \<lfloor>X\<rfloor> \<le> bit_length \<lfloor>Y\<rfloor>" by (rule bit_length_mono)
  then have s: "sx \<le> sy" by (simp add: sx_def sy_def)
  have ex: "round_float p N x = of_int (rne (X / 2 ^ sx)) * 2 ^ sx / 2 ^ N"
    unfolding X_def sx_def by (rule round_float_pos_eq [OF x0])
  have ey: "round_float p N y = of_int (rne (Y / 2 ^ sy)) * 2 ^ sy / 2 ^ N"
    unfolding Y_def sy_def by (rule round_float_pos_eq [OF y0])
  have "rne (X / 2 ^ sx) * 2 ^ sx \<le> rne (Y / 2 ^ sy) * 2 ^ sy"
  proof (cases "sx = sy")
    case True
    have "X / 2 ^ sy \<le> Y / 2 ^ sy" using XY by (simp add: divide_right_mono)
    then have "rne (X / 2 ^ sy) \<le> rne (Y / 2 ^ sy)" by (rule rne_mono)
    then show ?thesis unfolding True by (rule mult_right_mono) simp
  next
    case False
    with s have lt: "Suc sx \<le> sy" by simp
    then have "0 < sy" by simp
    then have "sy + p \<le> bit_length \<lfloor>Y\<rfloor>" by (simp add: sy_def)
    then have "2 ^ (p - 1) \<le> rne (Y / 2 ^ sy)" using p by (rule rne_scaled_ge)
    then have lo: "2 ^ (p - 1) * 2 ^ sy \<le> rne (Y / 2 ^ sy) * 2 ^ sy"
      by (rule mult_right_mono) simp
    have "bit_length \<lfloor>X\<rfloor> \<le> sx + p" by (simp add: sx_def)
    then have "rne (X / 2 ^ sx) \<le> 2 ^ p" by (rule rne_scaled_le)
    then have hi: "rne (X / 2 ^ sx) * 2 ^ sx \<le> 2 ^ p * 2 ^ sx"
      by (rule mult_right_mono) simp
    have "p + sx \<le> p - 1 + sy" using lt p by simp
    then have "(2::int) ^ (p + sx) \<le> 2 ^ (p - 1 + sy)"
      by (rule power_increasing) simp
    then have "(2::int) ^ p * 2 ^ sx \<le> 2 ^ (p - 1) * 2 ^ sy" by (simp only: power_add)
    with hi lo show ?thesis by linarith
  qed
  then have "rat_of_int (rne (X / 2 ^ sx) * 2 ^ sx) \<le> rat_of_int (rne (Y / 2 ^ sy) * 2 ^ sy)"
    by (simp only: of_int_le_iff)
  then have "rat_of_int (rne (X / 2 ^ sx)) * 2 ^ sx \<le> rat_of_int (rne (Y / 2 ^ sy)) * 2 ^ sy"
    by simp
  then have "rat_of_int (rne (X / 2 ^ sx)) * 2 ^ sx / 2 ^ N \<le> rat_of_int (rne (Y / 2 ^ sy)) * 2 ^ sy / 2 ^ N"
    by (rule divide_right_mono) simp
  then show ?thesis by (simp only: ex ey)
qed

subsection \<open>Binary64\<close>

lemma round_float_dyadic:
  assumes "m \<le> 2 ^ p" and "0 < p" and "j \<le> N"
  shows "round_float p N (of_nat m / 2 ^ j) = of_nat m / 2 ^ j"
proof -
  define s where "s = N - j"
  have N: "N = j + s" using assms(3) by (simp add: s_def)
  have "(of_nat (m * 2 ^ s) / 2 ^ N :: rat) = of_nat m / 2 ^ j"
    by (simp add: N power_add)
  then show ?thesis using round_float_fix [OF assms(1,2), of N s] by simp
qed

lemma round_double_nonneg: "0 \<le> x \<Longrightarrow> 0 \<le> round_double x"
  unfolding round_double_def by (rule round_float_nonneg)

lemma round_double_mono: "0 \<le> x \<Longrightarrow> x \<le> y \<Longrightarrow> round_double x \<le> round_double y"
  unfolding round_double_def by (rule round_float_mono) simp_all

lemma round_double_idem: "0 \<le> x \<Longrightarrow> round_double (round_double x) = round_double x"
  unfolding round_double_def by (rule round_float_idem) simp_all

lemma round_double_dyadic:
  "m \<le> 2 ^ 53 \<Longrightarrow> j \<le> 1074 \<Longrightarrow> round_double (of_nat m / 2 ^ j) = of_nat m / 2 ^ j"
  unfolding round_double_def by (rule round_float_dyadic) simp_all

lemma round_double_eval:
  assumes "2 ^ 52 \<le> x * 2 ^ j" and "x * 2 ^ j < 2 ^ 53" and "j \<le> 1074" and "rne (x * 2 ^ j) = r"
  shows "round_double x = of_int r / 2 ^ j"
  unfolding round_double_def
  using round_float_normal [of j 1074 53 x] assms by simp

lemma round_double_zero [simp]: "round_double 0 = 0"
  using round_double_dyadic [of 0 0] by simp

lemma round_double_one [simp]: "round_double 1 = 1"
  using round_double_dyadic [of 1 0] by simp

lemma round_double_numeral [simp]:
  "numeral k \<le> (9007199254740992::nat) \<Longrightarrow> round_double (numeral k) = numeral k"
  using round_double_dyadic [of "numeral k" 0] by simp

lemma round_double_half [simp]:
  "numeral k \<le> (9007199254740992::nat) \<Longrightarrow> round_double (numeral k / 2) = numeral k / 2"
  using round_double_dyadic [of "numeral k" 1] by simp

lemma round_double_one_half [simp]: "round_double (1 / 2) = 1 / 2"
  using round_double_dyadic [of 1 1] by simp

text \<open>
  The floats the examples of the specification need, each from its scaled significand.
\<close>

lemma rne_03: "rne (3 / 10 * 2 ^ 54) = 5404319552844595"
  by code_simp

lemma round_double_03: "round_double (3 / 10) = 5404319552844595 / 18014398509481984"
  using round_double_eval [of "3 / 10" 54, OF _ _ _ rne_03] by simp

lemma rne_08: "rne (4 / 5 * 2 ^ 53) = 7205759403792794"
  by code_simp

lemma round_double_08: "round_double (4 / 5) = 3602879701896397 / 4503599627370496"
  using round_double_eval [of "4 / 5" 53, OF _ _ _ rne_08] by simp

lemma rne_12: "rne (6 / 5 * 2 ^ 52) = 5404319552844595"
  by code_simp

lemma round_double_12: "round_double (6 / 5) = 5404319552844595 / 4503599627370496"
  using round_double_eval [of "6 / 5" 52, OF _ _ _ rne_12] by simp

lemma rne_53: "rne (53 / 10 * 2 ^ 50) = 5967269506265907"
  by code_simp

lemma round_double_53: "round_double (53 / 10) = 5967269506265907 / 1125899906842624"
  using round_double_eval [of "53 / 10" 50, OF _ _ _ rne_53] by simp

lemma rne_162: "rne (81 / 5 * 2 ^ 48) = 4559894622712627"
  by code_simp

lemma round_double_162: "round_double (81 / 5) = 4559894622712627 / 281474976710656"
  using round_double_eval [of "81 / 5" 48, OF _ _ _ rne_162] by simp

lemma rne_5_03: "rne (95476312100254515 / 18014398509481984 * 2 ^ 50) = 5967269506265907"
  by code_simp

lemma round_double_5_03: "round_double (95476312100254515 / 18014398509481984) = 5967269506265907 / 1125899906842624"
  using round_double_eval [of "95476312100254515 / 18014398509481984" 50, OF _ _ _ rne_5_03] by simp

lemma rne_13_12: "rne (63951114708661043 / 4503599627370496 * 2 ^ 49) = 7993889338582630"
  by code_simp

lemma round_double_13_12: "round_double (63951114708661043 / 4503599627370496) = 3996944669291315 / 281474976710656"
  using round_double_eval [of "63951114708661043 / 4503599627370496" 49, OF _ _ _ rne_13_12] by simp

lemma rne_142_2: "rne (4559894622712627 / 281474976710656 * 2 ^ 48) = 4559894622712627"
  by code_simp

lemma round_double_142_2: "round_double (4559894622712627 / 281474976710656) = 4559894622712627 / 281474976710656"
  using round_double_eval [of "4559894622712627 / 281474976710656" 48, OF _ _ _ rne_142_2] by simp

lemmas round_double_values =
  round_double_03 round_double_08 round_double_12 round_double_53 round_double_162
  round_double_5_03 round_double_13_12 round_double_142_2

section \<open>The accumulator of \<^verbatim>\<open>calculate_risk\<close>\<close>

subsection \<open>Float addition of penalties\<close>

lemma float_lit_nonneg: "0 \<le> q \<Longrightarrow> 0 \<le> float_lit q"
  unfolding float_lit_def by (rule round_double_nonneg)

lemma float_lit_fixed: "0 \<le> q \<Longrightarrow> round_double (float_lit q) = float_lit q"
  unfolding float_lit_def by (rule round_double_idem)

lemma fadd_nonneg: "0 \<le> a \<Longrightarrow> 0 \<le> b \<Longrightarrow> 0 \<le> fadd a b"
  unfolding fadd_def by (rule round_double_nonneg) simp

lemma fadd_fixed: "0 \<le> a \<Longrightarrow> 0 \<le> b \<Longrightarrow> round_double (fadd a b) = fadd a b"
  unfolding fadd_def by (rule round_double_idem) simp

lemma fadd_mono:
  "0 \<le> a \<Longrightarrow> a \<le> a' \<Longrightarrow> 0 \<le> b \<Longrightarrow> b \<le> b' \<Longrightarrow> fadd a b \<le> fadd a' b'"
  unfolding fadd_def by (rule round_double_mono) simp_all

lemma fadd_zero_left: "0 \<le> b \<Longrightarrow> fadd 0 (float_lit b) = float_lit b"
  by (simp add: fadd_def float_lit_fixed)

lemma fadd_zero_right: "round_double a = a \<Longrightarrow> fadd a 0 = a"
  by (simp add: fadd_def)

lemma float_lit_zero [simp]: "float_lit 0 = 0"
  by (simp add: float_lit_def)

lemma bmi_penalty_nonneg: "0 \<le> bmi_penalty bmi"
  by (simp add: bmi_penalty_def bmi_assessment_def fadd_nonneg float_lit_nonneg)

lemma bmi_penalty_fixed: "round_double (bmi_penalty bmi) = bmi_penalty bmi"
  by (simp add: bmi_penalty_def bmi_assessment_def fadd_fixed float_lit_nonneg)

lemma bmi_assessment_score:
  "0 \<le> fst st \<Longrightarrow> round_double (fst st) = fst st \<Longrightarrow>
     fst (bmi_assessment bmi st) = fadd (fst st) (bmi_penalty bmi)"
  by (cases st) (simp add: bmi_penalty_def bmi_assessment_def fadd_zero_left float_lit_nonneg fadd_zero_right)

lemma bp_penalty_nonneg: "0 \<le> bp_penalty bp"
  by (simp add: bp_penalty_def bp_assessment_def fadd_nonneg float_lit_nonneg)

lemma bp_assessment_score:
  "0 \<le> fst st \<Longrightarrow> round_double (fst st) = fst st \<Longrightarrow>
     fst (bp_assessment bp st) = fadd (fst st) (bp_penalty bp)"
  by (cases st) (simp add: bp_penalty_def bp_assessment_def fadd_zero_left float_lit_nonneg fadd_zero_right)

lemma cholesterol_penalty_nonneg: "0 \<le> cholesterol_penalty cholesterol"
  by (simp add: cholesterol_penalty_def cholesterol_assessment_def fadd_nonneg float_lit_nonneg)

lemma cholesterol_assessment_score:
  "0 \<le> fst st \<Longrightarrow> round_double (fst st) = fst st \<Longrightarrow>
     fst (cholesterol_assessment cholesterol st) = fadd (fst st) (cholesterol_penalty cholesterol)"
  by (cases st) (simp add: cholesterol_penalty_def cholesterol_assessment_def fadd_zero_left float_lit_nonneg fadd_zero_right)

lemma glucose_penalty_nonneg: "0 \<le> glucose_penalty glucose"
  by (simp add: glucose_penalty_def glucose_assessment_def fadd_nonneg float_lit_nonneg)

lemma glucose_assessment_score:
  "0 \<le> fst st \<Longrightarrow> round_double (fst st) = fst st \<Longrightarrow>
     fst (glucose_assessment glucose st) = fadd (fst st) (glucose_penalty glucose)"
  by (cases st) (simp add: glucose_penalty_def glucose_assessment_def fadd_zero_left float_lit_nonneg fadd_zero_right)

lemma age_penalty_nonneg: "0 \<le> age_penalty age"
  by (simp add: age_penalty_def age_factor_def fadd_nonneg float_lit_nonneg)

lemma age_factor_score:
  "0 \<le> fst st \<Longrightarrow> round_double (fst st) = fst st \<Longrightarrow>
     fst (age_factor age st) = fadd (fst st) (age_penalty age)"
  by (cases st) (simp add: age_penalty_def age_factor_def fadd_zero_left float_lit_nonneg fadd_zero_right)

lemma smoking_penalty_nonneg: "0 \<le> smoking_penalty smoking"
  by (simp add: smoking_penalty_def smoking_factor_def fadd_nonneg float_lit_nonneg)

lemma smoking_factor_score:
  "0 \<le> fst st \<Longrightarrow> round_double (fst st) = fst st \<Longrightarrow>
     fst (smoking_factor smoking st) = fadd (fst st) (smoking_penalty smoking)"
  by (cases st) (simp add: smoking_penalty_def smoking_factor_def fadd_zero_left float_lit_nonneg fadd_zero_right)


lemma calculate_risk_unfold:
  "calculate_risk age bmi bp cholesterol glucose smoking =
    (let st = smoking_factor smoking
             (age_factor age
               (glucose_assessment glucose
                 (cholesterol_assessment cholesterol
                   (bp_assessment bp
                     (bmi_assessment bmi (0, []))))))
     in (fst (risk_level_color (fst st)), snd (risk_level_color (fst st)), fst st,
         snd st @ general_recommendations))"
  by (simp add: calculate_risk_def Let_def split: prod.splits)

text \<open>
  The accumulator after each chain, as nested float additions of the penalties. Every
  intermediate value is a nonnegative float, which is what lets a chain that adds nothing
  be read as adding a penalty of 0.
\<close>

lemma accumulator_trace_eq:
  "accumulator_trace age bmi bp cholesterol glucose smoking =
    [0,
     fadd 0 (bmi_penalty bmi),
     fadd (fadd 0 (bmi_penalty bmi)) (bp_penalty bp),
     fadd (fadd (fadd 0 (bmi_penalty bmi)) (bp_penalty bp)) (cholesterol_penalty cholesterol),
     fadd (fadd (fadd (fadd 0 (bmi_penalty bmi)) (bp_penalty bp)) (cholesterol_penalty cholesterol))
       (glucose_penalty glucose),
     fadd (fadd (fadd (fadd (fadd 0 (bmi_penalty bmi)) (bp_penalty bp)) (cholesterol_penalty cholesterol))
       (glucose_penalty glucose)) (age_penalty age),
     fadd (fadd (fadd (fadd (fadd (fadd 0 (bmi_penalty bmi)) (bp_penalty bp)) (cholesterol_penalty cholesterol))
       (glucose_penalty glucose)) (age_penalty age)) (smoking_penalty smoking)]"
proof -
  define s1 where "s1 = bmi_assessment bmi (0, [])"
  define s2 where "s2 = bp_assessment bp s1"
  define s3 where "s3 = cholesterol_assessment cholesterol s2"
  define s4 where "s4 = glucose_assessment glucose s3"
  define s5 where "s5 = age_factor age s4"
  define s6 where "s6 = smoking_factor smoking s5"
  have e1: "fst s1 = fadd 0 (bmi_penalty bmi)"
    unfolding s1_def using bmi_assessment_score [of "(0, [])" bmi] by simp
  have p1: "0 \<le> fst s1" "round_double (fst s1) = fst s1"
    unfolding e1 by (simp_all add: fadd_nonneg fadd_fixed bmi_penalty_nonneg)
  have e2: "fst s2 = fadd (fst s1) (bp_penalty bp)"
    unfolding s2_def using p1 by (rule bp_assessment_score)
  have p2: "0 \<le> fst s2" "round_double (fst s2) = fst s2"
    unfolding e2 using p1 by (simp_all add: fadd_nonneg fadd_fixed bp_penalty_nonneg)
  have e3: "fst s3 = fadd (fst s2) (cholesterol_penalty cholesterol)"
    unfolding s3_def using p2 by (rule cholesterol_assessment_score)
  have p3: "0 \<le> fst s3" "round_double (fst s3) = fst s3"
    unfolding e3 using p2 by (simp_all add: fadd_nonneg fadd_fixed cholesterol_penalty_nonneg)
  have e4: "fst s4 = fadd (fst s3) (glucose_penalty glucose)"
    unfolding s4_def using p3 by (rule glucose_assessment_score)
  have p4: "0 \<le> fst s4" "round_double (fst s4) = fst s4"
    unfolding e4 using p3 by (simp_all add: fadd_nonneg fadd_fixed glucose_penalty_nonneg)
  have e5: "fst s5 = fadd (fst s4) (age_penalty age)"
    unfolding s5_def using p4 by (rule age_factor_score)
  have p5: "0 \<le> fst s5" "round_double (fst s5) = fst s5"
    unfolding e5 using p4 by (simp_all add: fadd_nonneg fadd_fixed age_penalty_nonneg)
  have e6: "fst s6 = fadd (fst s5) (smoking_penalty smoking)"
    unfolding s6_def using p5 by (rule smoking_factor_score)
  have "accumulator_trace age bmi bp cholesterol glucose smoking =
      [0, fst s1, fst s2, fst s3, fst s4, fst s5, fst s6]"
    by (simp add: accumulator_trace_def Let_def s1_def s2_def s3_def s4_def s5_def s6_def)
  then show ?thesis by (simp only: e6 e5 e4 e3 e2 e1)
qed

lemma score_of_last_accumulator:
  "score_of (calculate_risk age bmi bp cholesterol glucose smoking) =
     last (accumulator_trace age bmi bp cholesterol glucose smoking)"
  by (simp add: calculate_risk_unfold score_of_def accumulator_trace_def Let_def)

lemma score_of_calculate_risk:
  "score_of (calculate_risk age bmi bp cholesterol glucose smoking) =
     fadd (fadd (fadd (fadd (fadd (fadd 0 (bmi_penalty bmi)) (bp_penalty bp))
       (cholesterol_penalty cholesterol)) (glucose_penalty glucose)) (age_penalty age))
       (smoking_penalty smoking)"
  by (simp add: score_of_last_accumulator accumulator_trace_eq)

lemma risk_level_of_calculate_risk:
  "risk_level_of (calculate_risk age bmi bp cholesterol glucose smoking) =
     fst (risk_level_color (score_of (calculate_risk age bmi bp cholesterol glucose smoking)))"
  by (simp add: calculate_risk_unfold risk_level_of_def score_of_def Let_def)

lemma color_of_calculate_risk:
  "color_of (calculate_risk age bmi bp cholesterol glucose smoking) =
     snd (risk_level_color (score_of (calculate_risk age bmi bp cholesterol glucose smoking)))"
  by (simp add: calculate_risk_unfold color_of_def score_of_def Let_def)

text \<open>The facts that evaluate \<^verbatim>\<open>calculate_risk\<close> at a concrete input.\<close>

lemmas calculate_risk_eval =
  calculate_risk_unfold bmi_assessment_def bp_assessment_def cholesterol_assessment_def
  glucose_assessment_def age_factor_def smoking_factor_def float_lit_def fadd_def
  round_double_values

subsection \<open>The accumulator never goes down\<close>

lemma fadd_ge_left:
  assumes "0 \<le> a" and "round_double a = a" and "0 \<le> b"
  shows "a \<le> fadd a b"
proof -
  have "round_double a \<le> round_double (a + b)"
    using assms(1,3) by (intro round_double_mono) simp_all
  then show ?thesis by (simp add: fadd_def assms(2))
qed

lemma sorted_accumulator_trace:
  "sorted (accumulator_trace age bmi bp cholesterol glucose smoking)"
proof -
  define a1 where "a1 = fadd 0 (bmi_penalty bmi)"
  define a2 where "a2 = fadd a1 (bp_penalty bp)"
  define a3 where "a3 = fadd a2 (cholesterol_penalty cholesterol)"
  define a4 where "a4 = fadd a3 (glucose_penalty glucose)"
  define a5 where "a5 = fadd a4 (age_penalty age)"
  define a6 where "a6 = fadd a5 (smoking_penalty smoking)"
  have p1: "0 \<le> a1" "round_double a1 = a1"
    unfolding a1_def by (simp_all add: fadd_nonneg fadd_fixed bmi_penalty_nonneg)
  have p2: "0 \<le> a2" "round_double a2 = a2"
    unfolding a2_def using p1 by (simp_all add: fadd_nonneg fadd_fixed bp_penalty_nonneg)
  have p3: "0 \<le> a3" "round_double a3 = a3"
    unfolding a3_def using p2 by (simp_all add: fadd_nonneg fadd_fixed cholesterol_penalty_nonneg)
  have p4: "0 \<le> a4" "round_double a4 = a4"
    unfolding a4_def using p3 by (simp_all add: fadd_nonneg fadd_fixed glucose_penalty_nonneg)
  have p5: "0 \<le> a5" "round_double a5 = a5"
    unfolding a5_def using p4 by (simp_all add: fadd_nonneg fadd_fixed age_penalty_nonneg)
  have l2: "a1 \<le> a2" unfolding a2_def using p1 bp_penalty_nonneg by (rule fadd_ge_left)
  have l3: "a2 \<le> a3" unfolding a3_def using p2 cholesterol_penalty_nonneg by (rule fadd_ge_left)
  have l4: "a3 \<le> a4" unfolding a4_def using p3 glucose_penalty_nonneg by (rule fadd_ge_left)
  have l5: "a4 \<le> a5" unfolding a5_def using p4 age_penalty_nonneg by (rule fadd_ge_left)
  have l6: "a5 \<le> a6" unfolding a6_def using p5 smoking_penalty_nonneg by (rule fadd_ge_left)
  have "accumulator_trace age bmi bp cholesterol glucose smoking = [0, a1, a2, a3, a4, a5, a6]"
    by (simp only: accumulator_trace_eq a1_def a2_def a3_def a4_def a5_def a6_def)
  moreover have "sorted [0, a1, a2, a3, a4, a5, a6]"
    using p1(1) l2 l3 l4 l5 l6 by simp
  ultimately show ?thesis by simp
qed

subsection \<open>The penalties in closed form\<close>

lemma bmi_penalty_eq:
  "bmi_penalty bmi =
    (if float_lt bmi (Finite (37 / 2)) then 1
     else if float_le (Finite (37 / 2)) bmi \<and> float_lt bmi (Finite 25) then 0
     else if float_le (Finite 25) bmi \<and> float_lt bmi (Finite 30) then 3 / 2
     else if float_le (Finite 30) bmi \<and> float_lt bmi (Finite 35) then 5 / 2
     else 7 / 2)"
  by (simp add: bmi_penalty_def bmi_assessment_def fadd_def float_lit_def)

lemma bp_penalty_eq:
  "bp_penalty bp =
    (if bp < 90 then 1 else if bp < 120 then 0 else if bp < 130 then 1 / 2
     else if bp < 140 then 3 / 2 else if bp < 180 then 5 / 2 else 4)"
  by (simp add: bp_penalty_def bp_assessment_def fadd_def float_lit_def)

lemma cholesterol_penalty_eq:
  "cholesterol_penalty cholesterol =
    (if cholesterol < 200 then 0 else if cholesterol < 240 then 3 / 2 else 5 / 2)"
  by (simp add: cholesterol_penalty_def cholesterol_assessment_def fadd_def float_lit_def)

lemma glucose_penalty_eq:
  "glucose_penalty glucose =
    (if glucose < 70 then 1 else if glucose < 100 then 0 else if glucose < 126 then 3 / 2 else 3)"
  by (simp add: glucose_penalty_def glucose_assessment_def fadd_def float_lit_def)

lemma age_penalty_eq:
  "age_penalty age =
    (if age < 30 then 0 else if age < 45 then float_lit 0.3
     else if age < 60 then float_lit 0.8 else float_lit 1.2)"
  by (simp add: age_penalty_def age_factor_def fadd_zero_left)

lemma smoking_penalty_eq:
  "smoking_penalty smoking =
    (if smoking = ''Current smoker'' then 2 else if smoking = ''Former smoker'' then 1 / 2 else 0)"
  by (simp add: smoking_penalty_def smoking_factor_def fadd_def float_lit_def)

subsection \<open>Monotonicity of the score and of the risk level\<close>

lemma score_mono:
  assumes "bmi_penalty bmi \<le> bmi_penalty bmi'" and "bp_penalty bp \<le> bp_penalty bp'"
    and "cholesterol_penalty cholesterol \<le> cholesterol_penalty cholesterol'"
    and "glucose_penalty glucose \<le> glucose_penalty glucose'"
    and "age_penalty age \<le> age_penalty age'"
    and "smoking_penalty smoking \<le> smoking_penalty smoking'"
  shows "score_of (calculate_risk age bmi bp cholesterol glucose smoking)
    \<le> score_of (calculate_risk age' bmi' bp' cholesterol' glucose' smoking')"
  unfolding score_of_calculate_risk
  by (intro fadd_mono fadd_nonneg assms bmi_penalty_nonneg bp_penalty_nonneg
      cholesterol_penalty_nonneg glucose_penalty_nonneg age_penalty_nonneg
      smoking_penalty_nonneg order_refl)

lemma severity_mono:
  "s \<le> s' \<Longrightarrow> severity (fst (risk_level_color s)) \<le> severity (fst (risk_level_color s'))"
  by (simp add: risk_level_color_def severity_def)

lemma level_mono:
  assumes "score_of (calculate_risk age bmi bp cholesterol glucose smoking)
    \<le> score_of (calculate_risk age' bmi' bp' cholesterol' glucose' smoking')"
  shows "severity (risk_level_of (calculate_risk age bmi bp cholesterol glucose smoking))
    \<le> severity (risk_level_of (calculate_risk age' bmi' bp' cholesterol' glucose' smoking'))"
  unfolding risk_level_of_calculate_risk using assms by (rule severity_mono)

subsection \<open>The largest score\<close>

lemma max_score:
  "fadd (fadd (fadd (fadd (fadd (fadd 0 (7 / 2)) 4) (5 / 2)) 3) (float_lit 1.2)) 2 = float_lit 16.2"
  by (simp add: fadd_def float_lit_def round_double_values)

lemma age_penalty_le: "age_penalty age \<le> float_lit 1.2"
  by (simp add: age_penalty_eq float_lit_def round_double_values)

subsection \<open>Values on bucket boundaries\<close>

lemma float_lit_bmi_bounds: "float_lit (37 / 2) = 37 / 2" "float_lit (185 / 10) = 37 / 2"
  by (simp_all add: float_lit_def)

subsection \<open>The recommendation list\<close>

lemma snd_bmi_assessment: "length (snd (bmi_assessment bmi st)) = Suc (length (snd st))"
  by (cases st) (simp add: bmi_assessment_def)

lemma snd_bp_assessment: "length (snd (bp_assessment bp st)) = Suc (length (snd st))"
  by (cases st) (simp add: bp_assessment_def)

lemma snd_cholesterol_assessment:
  "length (snd (cholesterol_assessment cholesterol st)) = Suc (length (snd st))"
  by (cases st) (simp add: cholesterol_assessment_def)

lemma snd_glucose_assessment: "length (snd (glucose_assessment glucose st)) = Suc (length (snd st))"
  by (cases st) (simp add: glucose_assessment_def)

lemma snd_age_factor:
  "length (snd (age_factor age st)) = (if age < 45 then length (snd st) else Suc (length (snd st)))"
  by (cases st) (simp add: age_factor_def)

lemma snd_smoking_factor: "length (snd (smoking_factor smoking st)) = Suc (length (snd st))"
  by (cases st) (simp add: smoking_factor_def)

lemma recommendations_of_calculate_risk:
  "recommendations_of (calculate_risk age bmi bp cholesterol glucose smoking) =
     snd (smoking_factor smoking
       (age_factor age
         (glucose_assessment glucose
           (cholesterol_assessment cholesterol
             (bp_assessment bp
               (bmi_assessment bmi (0, []))))))) @ general_recommendations"
  by (simp add: calculate_risk_unfold recommendations_of_def Let_def)

lemma length_general_recommendations: "length general_recommendations = 5"
  by (simp add: general_recommendations_def)

lemma length_recommendations:
  "length (recommendations_of (calculate_risk age bmi bp cholesterol glucose smoking)) =
     (if age < 45 then 10 else 11)"
  by (simp add: recommendations_of_calculate_risk length_general_recommendations
      snd_bmi_assessment snd_bp_assessment snd_cholesterol_assessment snd_glucose_assessment
      snd_age_factor snd_smoking_factor)

subsection \<open>The numbered items of the report\<close>

lemma enumerate_take: "enumerate n (take k xs) = zip [n..<n + k] xs"
proof (induction xs arbitrary: n k)
  case Nil
  then show ?case by simp
next
  case (Cons x xs)
  show ?case
  proof (cases k)
    case 0
    then show ?thesis by simp
  next
    case (Suc j)
    have "[n..<n + Suc j] = n # [Suc n..<Suc n + j]" by (simp add: upt_conv_Cons)
    then show ?thesis using Cons.IH [of "Suc n" j] Suc by simp
  qed
qed

lemma multi_cell_texts_recommendation_calls:
  "multi_cell_texts (recommendation_calls xs) = map (\<lambda>(i, rec). str_nat i @ ''. '' @ rec) xs"
  by (induction xs rule: recommendation_calls.induct) simp_all

subsection \<open>Blood-pressure buckets\<close>

lemma bp_bucket_eq:
  "bp_bucket bp =
    (if bp < 90 then 0 else if bp < 120 then 1 else if bp < 130 then 2
     else if bp < 140 then 3 else if bp < 180 then 4 else 5)"
  by (simp add: bp_bucket_def)

section \<open>The claims\<close>

text \<open>
  C1. A value on a bucket boundary takes the bucket whose closed lower end it is, at
  every one of the 17 boundaries of the five numeric factors: BMI 18.5, 25, 30, 35;
  pressure 90, 120, 130, 140, 180; cholesterol 200, 240; glucose 70, 100, 126; age 30,
  45, 60. So BMI 25.0 adds 1.5 (overweight) and not 0, pressure 120 adds 0.5 (elevated),
  cholesterol 200 adds 1.5 (borderline high), glucose 100 adds 1.5 (prediabetes), age 45
  adds 0.8 and age 30 adds 0.3. For each boundary this is stated three times: for the
  factor's chain run on any locals (the update of the score and the advice appended), for
  the penalty, and for \<^verbatim>\<open>calculate_risk\<close> itself, whose score, whatever the other five
  arguments are, is the float sum of that bucket's penalty and the penalties of the
  others. Six calls with the other factors at no penalty close the list.
\<close>

theorem calculate_risk_bucket_boundaries:
  "bmi_assessment (Finite 18.5) (risk_score, recommendations) =
     (risk_score,
      recommendations @ [''Your BMI is in the healthy range. Maintain your current lifestyle!'']) \<and>
   bmi_assessment (Finite 25.0) (risk_score, recommendations) =
     (fadd risk_score (float_lit 1.5),
      recommendations @ [''Your BMI indicates overweight. Regular exercise and balanced diet can help reduce health risks.'']) \<and>
   bmi_assessment (Finite 30.0) (risk_score, recommendations) =
     (fadd risk_score (float_lit 2.5),
      recommendations @ [''Your BMI indicates obesity (Class I). Consult a healthcare provider for a weight management plan.'']) \<and>
   bmi_assessment (Finite 35.0) (risk_score, recommendations) =
     (fadd risk_score (float_lit 3.5),
      recommendations @ [''Your BMI indicates severe obesity. Medical supervision is strongly recommended for weight management.'']) \<and>
   bp_assessment 90 (risk_score, recommendations) =
     (risk_score,
      recommendations @ [''Your blood pressure is optimal. Keep up the good work!'']) \<and>
   bp_assessment 120 (risk_score, recommendations) =
     (fadd risk_score (float_lit 0.5),
      recommendations @ [''Your blood pressure is elevated. Lifestyle modifications may help prevent hypertension.'']) \<and>
   bp_assessment 130 (risk_score, recommendations) =
     (fadd risk_score (float_lit 1.5),
      recommendations @ [''Your blood pressure indicates Stage 1 hypertension. Consult your doctor about management strategies.'']) \<and>
   bp_assessment 140 (risk_score, recommendations) =
     (fadd risk_score (float_lit 2.5),
      recommendations @ [''Your blood pressure indicates Stage 2 hypertension. Medical treatment is likely needed.'']) \<and>
   bp_assessment 180 (risk_score, recommendations) =
     (fadd risk_score (float_lit 4.0),
      recommendations @ [''Your blood pressure is dangerously high. Seek immediate medical attention!'']) \<and>
   cholesterol_assessment 200 (risk_score, recommendations) =
     (fadd risk_score (float_lit 1.5),
      recommendations @ [''Your cholesterol is borderline high. Consider dietary changes to reduce cardiovascular risk.'']) \<and>
   cholesterol_assessment 240 (risk_score, recommendations) =
     (fadd risk_score (float_lit 2.5),
      recommendations @ [''Your cholesterol is high. Consult your doctor about medication and lifestyle changes.'']) \<and>
   glucose_assessment 70 (risk_score, recommendations) =
     (risk_score,
      recommendations @ [''Your fasting glucose is normal. Maintain a balanced diet!'']) \<and>
   glucose_assessment 100 (risk_score, recommendations) =
     (fadd risk_score (float_lit 1.5),
      recommendations @ [''Your glucose indicates prediabetes. Lifestyle changes can prevent type 2 diabetes.'']) \<and>
   glucose_assessment 126 (risk_score, recommendations) =
     (fadd risk_score (float_lit 3.0),
      recommendations @ [''Your glucose level suggests diabetes. Consult your doctor for proper diagnosis and management.'']) \<and>
   age_factor 30 (risk_score, recommendations) =
     (fadd risk_score (float_lit 0.3),
      recommendations) \<and>
   age_factor 45 (risk_score, recommendations) =
     (fadd risk_score (float_lit 0.8),
      recommendations @ [''Age is a risk factor. Regular health screenings become increasingly important.'']) \<and>
   age_factor 60 (risk_score, recommendations) =
     (fadd risk_score (float_lit 1.2),
      recommendations @ [''At your age, regular medical check-ups and monitoring are essential.'']) \<and>
   bmi_penalty (Finite 18.5) = 0 \<and>
   bmi_penalty (Finite 25.0) = 1.5 \<and>
   bmi_penalty (Finite 30.0) = 2.5 \<and>
   bmi_penalty (Finite 35.0) = 3.5 \<and>
   bp_penalty 90 = 0 \<and>
   bp_penalty 120 = 0.5 \<and>
   bp_penalty 130 = 1.5 \<and>
   bp_penalty 140 = 2.5 \<and>
   bp_penalty 180 = 4.0 \<and>
   cholesterol_penalty 200 = 1.5 \<and>
   cholesterol_penalty 240 = 2.5 \<and>
   glucose_penalty 70 = 0 \<and>
   glucose_penalty 100 = 1.5 \<and>
   glucose_penalty 126 = 3.0 \<and>
   age_penalty 30 = float_lit 0.3 \<and>
   age_penalty 45 = float_lit 0.8 \<and>
   age_penalty 60 = float_lit 1.2 \<and>
   score_of (calculate_risk age (Finite 18.5) bp cholesterol glucose smoking) =
     penalty_sum 0 (bp_penalty bp) (cholesterol_penalty cholesterol) (glucose_penalty glucose) (age_penalty age) (smoking_penalty smoking) \<and>
   score_of (calculate_risk age (Finite 25.0) bp cholesterol glucose smoking) =
     penalty_sum 1.5 (bp_penalty bp) (cholesterol_penalty cholesterol) (glucose_penalty glucose) (age_penalty age) (smoking_penalty smoking) \<and>
   score_of (calculate_risk age (Finite 30.0) bp cholesterol glucose smoking) =
     penalty_sum 2.5 (bp_penalty bp) (cholesterol_penalty cholesterol) (glucose_penalty glucose) (age_penalty age) (smoking_penalty smoking) \<and>
   score_of (calculate_risk age (Finite 35.0) bp cholesterol glucose smoking) =
     penalty_sum 3.5 (bp_penalty bp) (cholesterol_penalty cholesterol) (glucose_penalty glucose) (age_penalty age) (smoking_penalty smoking) \<and>
   score_of (calculate_risk age bmi 90 cholesterol glucose smoking) =
     penalty_sum (bmi_penalty bmi) 0 (cholesterol_penalty cholesterol) (glucose_penalty glucose) (age_penalty age) (smoking_penalty smoking) \<and>
   score_of (calculate_risk age bmi 120 cholesterol glucose smoking) =
     penalty_sum (bmi_penalty bmi) 0.5 (cholesterol_penalty cholesterol) (glucose_penalty glucose) (age_penalty age) (smoking_penalty smoking) \<and>
   score_of (calculate_risk age bmi 130 cholesterol glucose smoking) =
     penalty_sum (bmi_penalty bmi) 1.5 (cholesterol_penalty cholesterol) (glucose_penalty glucose) (age_penalty age) (smoking_penalty smoking) \<and>
   score_of (calculate_risk age bmi 140 cholesterol glucose smoking) =
     penalty_sum (bmi_penalty bmi) 2.5 (cholesterol_penalty cholesterol) (glucose_penalty glucose) (age_penalty age) (smoking_penalty smoking) \<and>
   score_of (calculate_risk age bmi 180 cholesterol glucose smoking) =
     penalty_sum (bmi_penalty bmi) 4.0 (cholesterol_penalty cholesterol) (glucose_penalty glucose) (age_penalty age) (smoking_penalty smoking) \<and>
   score_of (calculate_risk age bmi bp 200 glucose smoking) =
     penalty_sum (bmi_penalty bmi) (bp_penalty bp) 1.5 (glucose_penalty glucose) (age_penalty age) (smoking_penalty smoking) \<and>
   score_of (calculate_risk age bmi bp 240 glucose smoking) =
     penalty_sum (bmi_penalty bmi) (bp_penalty bp) 2.5 (glucose_penalty glucose) (age_penalty age) (smoking_penalty smoking) \<and>
   score_of (calculate_risk age bmi bp cholesterol 70 smoking) =
     penalty_sum (bmi_penalty bmi) (bp_penalty bp) (cholesterol_penalty cholesterol) 0 (age_penalty age) (smoking_penalty smoking) \<and>
   score_of (calculate_risk age bmi bp cholesterol 100 smoking) =
     penalty_sum (bmi_penalty bmi) (bp_penalty bp) (cholesterol_penalty cholesterol) 1.5 (age_penalty age) (smoking_penalty smoking) \<and>
   score_of (calculate_risk age bmi bp cholesterol 126 smoking) =
     penalty_sum (bmi_penalty bmi) (bp_penalty bp) (cholesterol_penalty cholesterol) 3.0 (age_penalty age) (smoking_penalty smoking) \<and>
   score_of (calculate_risk 30 bmi bp cholesterol glucose smoking) =
     penalty_sum (bmi_penalty bmi) (bp_penalty bp) (cholesterol_penalty cholesterol) (glucose_penalty glucose) (float_lit 0.3) (smoking_penalty smoking) \<and>
   score_of (calculate_risk 45 bmi bp cholesterol glucose smoking) =
     penalty_sum (bmi_penalty bmi) (bp_penalty bp) (cholesterol_penalty cholesterol) (glucose_penalty glucose) (float_lit 0.8) (smoking_penalty smoking) \<and>
   score_of (calculate_risk 60 bmi bp cholesterol glucose smoking) =
     penalty_sum (bmi_penalty bmi) (bp_penalty bp) (cholesterol_penalty cholesterol) (glucose_penalty glucose) (float_lit 1.2) (smoking_penalty smoking) \<and>
   score_of (calculate_risk 25 (Finite 25.0) 110 180 85 ''Non-smoker'') = 1.5 \<and>
   score_of (calculate_risk 25 (Finite 22.0) 120 180 85 ''Non-smoker'') = 0.5 \<and>
   score_of (calculate_risk 25 (Finite 22.0) 110 200 85 ''Non-smoker'') = 1.5 \<and>
   score_of (calculate_risk 25 (Finite 22.0) 110 180 100 ''Non-smoker'') = 1.5 \<and>
   score_of (calculate_risk 45 (Finite 22.0) 110 180 85 ''Non-smoker'') = float_lit 0.8 \<and>
   score_of (calculate_risk 30 (Finite 22.0) 110 180 85 ''Non-smoker'') = float_lit 0.3"
proof -
  have steps:
    "bmi_assessment (Finite 18.5) (risk_score, recommendations) =
         (risk_score,
          recommendations @ [''Your BMI is in the healthy range. Maintain your current lifestyle!''])"
    "bmi_assessment (Finite 25.0) (risk_score, recommendations) =
         (fadd risk_score (float_lit 1.5),
          recommendations @ [''Your BMI indicates overweight. Regular exercise and balanced diet can help reduce health risks.''])"
    "bmi_assessment (Finite 30.0) (risk_score, recommendations) =
         (fadd risk_score (float_lit 2.5),
          recommendations @ [''Your BMI indicates obesity (Class I). Consult a healthcare provider for a weight management plan.''])"
    "bmi_assessment (Finite 35.0) (risk_score, recommendations) =
         (fadd risk_score (float_lit 3.5),
          recommendations @ [''Your BMI indicates severe obesity. Medical supervision is strongly recommended for weight management.''])"
    "bp_assessment 90 (risk_score, recommendations) =
         (risk_score,
          recommendations @ [''Your blood pressure is optimal. Keep up the good work!''])"
    "bp_assessment 120 (risk_score, recommendations) =
         (fadd risk_score (float_lit 0.5),
          recommendations @ [''Your blood pressure is elevated. Lifestyle modifications may help prevent hypertension.''])"
    "bp_assessment 130 (risk_score, recommendations) =
         (fadd risk_score (float_lit 1.5),
          recommendations @ [''Your blood pressure indicates Stage 1 hypertension. Consult your doctor about management strategies.''])"
    "bp_assessment 140 (risk_score, recommendations) =
         (fadd risk_score (float_lit 2.5),
          recommendations @ [''Your blood pressure indicates Stage 2 hypertension. Medical treatment is likely needed.''])"
    "bp_assessment 180 (risk_score, recommendations) =
         (fadd risk_score (float_lit 4.0),
          recommendations @ [''Your blood pressure is dangerously high. Seek immediate medical attention!''])"
    "cholesterol_assessment 200 (risk_score, recommendations) =
         (fadd risk_score (float_lit 1.5),
          recommendations @ [''Your cholesterol is borderline high. Consider dietary changes to reduce cardiovascular risk.''])"
    "cholesterol_assessment 240 (risk_score, recommendations) =
         (fadd risk_score (float_lit 2.5),
          recommendations @ [''Your cholesterol is high. Consult your doctor about medication and lifestyle changes.''])"
    "glucose_assessment 70 (risk_score, recommendations) =
         (risk_score,
          recommendations @ [''Your fasting glucose is normal. Maintain a balanced diet!''])"
    "glucose_assessment 100 (risk_score, recommendations) =
         (fadd risk_score (float_lit 1.5),
          recommendations @ [''Your glucose indicates prediabetes. Lifestyle changes can prevent type 2 diabetes.''])"
    "glucose_assessment 126 (risk_score, recommendations) =
         (fadd risk_score (float_lit 3.0),
          recommendations @ [''Your glucose level suggests diabetes. Consult your doctor for proper diagnosis and management.''])"
    "age_factor 30 (risk_score, recommendations) =
         (fadd risk_score (float_lit 0.3),
          recommendations)"
    "age_factor 45 (risk_score, recommendations) =
         (fadd risk_score (float_lit 0.8),
          recommendations @ [''Age is a risk factor. Regular health screenings become increasingly important.''])"
    "age_factor 60 (risk_score, recommendations) =
         (fadd risk_score (float_lit 1.2),
          recommendations @ [''At your age, regular medical check-ups and monitoring are essential.''])"
    by (simp_all add: bmi_assessment_def bp_assessment_def cholesterol_assessment_def
        glucose_assessment_def age_factor_def float_lit_bmi_bounds)
  have penalties:
    "bmi_penalty (Finite 18.5) = 0"
    "bmi_penalty (Finite 25.0) = 1.5"
    "bmi_penalty (Finite 30.0) = 2.5"
    "bmi_penalty (Finite 35.0) = 3.5"
    "bp_penalty 90 = 0"
    "bp_penalty 120 = 0.5"
    "bp_penalty 130 = 1.5"
    "bp_penalty 140 = 2.5"
    "bp_penalty 180 = 4.0"
    "cholesterol_penalty 200 = 1.5"
    "cholesterol_penalty 240 = 2.5"
    "glucose_penalty 70 = 0"
    "glucose_penalty 100 = 1.5"
    "glucose_penalty 126 = 3.0"
    "age_penalty 30 = float_lit 0.3"
    "age_penalty 45 = float_lit 0.8"
    "age_penalty 60 = float_lit 1.2"
    by (simp_all add: bmi_penalty_eq bp_penalty_eq cholesterol_penalty_eq glucose_penalty_eq
        age_penalty_eq)
  have calls:
    "score_of (calculate_risk age (Finite 18.5) bp cholesterol glucose smoking) =
         penalty_sum 0 (bp_penalty bp) (cholesterol_penalty cholesterol) (glucose_penalty glucose) (age_penalty age) (smoking_penalty smoking)"
    "score_of (calculate_risk age (Finite 25.0) bp cholesterol glucose smoking) =
         penalty_sum 1.5 (bp_penalty bp) (cholesterol_penalty cholesterol) (glucose_penalty glucose) (age_penalty age) (smoking_penalty smoking)"
    "score_of (calculate_risk age (Finite 30.0) bp cholesterol glucose smoking) =
         penalty_sum 2.5 (bp_penalty bp) (cholesterol_penalty cholesterol) (glucose_penalty glucose) (age_penalty age) (smoking_penalty smoking)"
    "score_of (calculate_risk age (Finite 35.0) bp cholesterol glucose smoking) =
         penalty_sum 3.5 (bp_penalty bp) (cholesterol_penalty cholesterol) (glucose_penalty glucose) (age_penalty age) (smoking_penalty smoking)"
    "score_of (calculate_risk age bmi 90 cholesterol glucose smoking) =
         penalty_sum (bmi_penalty bmi) 0 (cholesterol_penalty cholesterol) (glucose_penalty glucose) (age_penalty age) (smoking_penalty smoking)"
    "score_of (calculate_risk age bmi 120 cholesterol glucose smoking) =
         penalty_sum (bmi_penalty bmi) 0.5 (cholesterol_penalty cholesterol) (glucose_penalty glucose) (age_penalty age) (smoking_penalty smoking)"
    "score_of (calculate_risk age bmi 130 cholesterol glucose smoking) =
         penalty_sum (bmi_penalty bmi) 1.5 (cholesterol_penalty cholesterol) (glucose_penalty glucose) (age_penalty age) (smoking_penalty smoking)"
    "score_of (calculate_risk age bmi 140 cholesterol glucose smoking) =
         penalty_sum (bmi_penalty bmi) 2.5 (cholesterol_penalty cholesterol) (glucose_penalty glucose) (age_penalty age) (smoking_penalty smoking)"
    "score_of (calculate_risk age bmi 180 cholesterol glucose smoking) =
         penalty_sum (bmi_penalty bmi) 4.0 (cholesterol_penalty cholesterol) (glucose_penalty glucose) (age_penalty age) (smoking_penalty smoking)"
    "score_of (calculate_risk age bmi bp 200 glucose smoking) =
         penalty_sum (bmi_penalty bmi) (bp_penalty bp) 1.5 (glucose_penalty glucose) (age_penalty age) (smoking_penalty smoking)"
    "score_of (calculate_risk age bmi bp 240 glucose smoking) =
         penalty_sum (bmi_penalty bmi) (bp_penalty bp) 2.5 (glucose_penalty glucose) (age_penalty age) (smoking_penalty smoking)"
    "score_of (calculate_risk age bmi bp cholesterol 70 smoking) =
         penalty_sum (bmi_penalty bmi) (bp_penalty bp) (cholesterol_penalty cholesterol) 0 (age_penalty age) (smoking_penalty smoking)"
    "score_of (calculate_risk age bmi bp cholesterol 100 smoking) =
         penalty_sum (bmi_penalty bmi) (bp_penalty bp) (cholesterol_penalty cholesterol) 1.5 (age_penalty age) (smoking_penalty smoking)"
    "score_of (calculate_risk age bmi bp cholesterol 126 smoking) =
         penalty_sum (bmi_penalty bmi) (bp_penalty bp) (cholesterol_penalty cholesterol) 3.0 (age_penalty age) (smoking_penalty smoking)"
    "score_of (calculate_risk 30 bmi bp cholesterol glucose smoking) =
         penalty_sum (bmi_penalty bmi) (bp_penalty bp) (cholesterol_penalty cholesterol) (glucose_penalty glucose) (float_lit 0.3) (smoking_penalty smoking)"
    "score_of (calculate_risk 45 bmi bp cholesterol glucose smoking) =
         penalty_sum (bmi_penalty bmi) (bp_penalty bp) (cholesterol_penalty cholesterol) (glucose_penalty glucose) (float_lit 0.8) (smoking_penalty smoking)"
    "score_of (calculate_risk 60 bmi bp cholesterol glucose smoking) =
         penalty_sum (bmi_penalty bmi) (bp_penalty bp) (cholesterol_penalty cholesterol) (glucose_penalty glucose) (float_lit 1.2) (smoking_penalty smoking)"
    by (simp_all add: score_of_calculate_risk penalty_sum_def
        bmi_penalty_eq [of "Finite (37 / 2)"] bmi_penalty_eq [of "Finite 25"]
        bmi_penalty_eq [of "Finite 30"] bmi_penalty_eq [of "Finite 35"]
        bp_penalty_eq [of 90] bp_penalty_eq [of 120] bp_penalty_eq [of 130]
        bp_penalty_eq [of 140] bp_penalty_eq [of 180]
        cholesterol_penalty_eq [of 200] cholesterol_penalty_eq [of 240]
        glucose_penalty_eq [of 70] glucose_penalty_eq [of 100] glucose_penalty_eq [of 126]
        age_penalty_eq [of 30] age_penalty_eq [of 45] age_penalty_eq [of 60])
  have examples:
    "score_of (calculate_risk 25 (Finite 25.0) 110 180 85 ''Non-smoker'') = 1.5"
    "score_of (calculate_risk 25 (Finite 22.0) 120 180 85 ''Non-smoker'') = 0.5"
    "score_of (calculate_risk 25 (Finite 22.0) 110 200 85 ''Non-smoker'') = 1.5"
    "score_of (calculate_risk 25 (Finite 22.0) 110 180 100 ''Non-smoker'') = 1.5"
    "score_of (calculate_risk 45 (Finite 22.0) 110 180 85 ''Non-smoker'') = float_lit 0.8"
    "score_of (calculate_risk 30 (Finite 22.0) 110 180 85 ''Non-smoker'') = float_lit 0.3"
    by (simp_all add: score_of_calculate_risk bmi_penalty_eq bp_penalty_eq cholesterol_penalty_eq
        glucose_penalty_eq age_penalty_eq smoking_penalty_eq fadd_def float_lit_fixed)
  from steps penalties calls examples show ?thesis by (intro conjI)
qed

text \<open>
  C2. For every input, the risk level and the color that \<^verbatim>\<open>calculate_risk\<close> returns are
  read off the final score, thresholds tried from the highest down and the first match
  taken: a score of at least 7 gives High Risk and \<^verbatim>\<open>#E74C3C\<close>; otherwise at least 4 gives
  Moderate Risk and \<^verbatim>\<open>#F39C12\<close>; otherwise at least 2 gives Low-Moderate Risk and
  \<^verbatim>\<open>#F9A825\<close>; otherwise Low Risk and \<^verbatim>\<open>#27AE60\<close>.
\<close>

theorem calculate_risk_tier_and_color:
  "(let r = calculate_risk age bmi bp cholesterol glucose smoking in
     (risk_level_of r, color_of r) =
       (if 7 \<le> score_of r then (''High Risk'', ''#E74C3C'')
        else if 4 \<le> score_of r then (''Moderate Risk'', ''#F39C12'')
        else if 2 \<le> score_of r then (''Low-Moderate Risk'', ''#F9A825'')
        else (''Low Risk'', ''#27AE60'')))"
  unfolding Let_def risk_level_of_calculate_risk color_of_calculate_risk
  by (simp add: risk_level_color_def)

text \<open>
  C3. Take two inputs that differ in one factor only, the changed factor lying in a
  bucket whose penalty is at least as large. Then the score does not decrease, and the
  severity of the risk level (Low, Low-Moderate, Moderate, High) does not decrease. One
  conjunct for each of the six factors.
\<close>

theorem calculate_risk_monotone:
  "(bmi_penalty bmi \<le> bmi_penalty bmi' \<longrightarrow>
      score_of (calculate_risk age bmi bp cholesterol glucose smoking)
        \<le> score_of (calculate_risk age bmi' bp cholesterol glucose smoking) \<and>
      severity (risk_level_of (calculate_risk age bmi bp cholesterol glucose smoking))
        \<le> severity (risk_level_of (calculate_risk age bmi' bp cholesterol glucose smoking))) \<and>
   (bp_penalty bp \<le> bp_penalty bp' \<longrightarrow>
      score_of (calculate_risk age bmi bp cholesterol glucose smoking)
        \<le> score_of (calculate_risk age bmi bp' cholesterol glucose smoking) \<and>
      severity (risk_level_of (calculate_risk age bmi bp cholesterol glucose smoking))
        \<le> severity (risk_level_of (calculate_risk age bmi bp' cholesterol glucose smoking))) \<and>
   (cholesterol_penalty cholesterol \<le> cholesterol_penalty cholesterol' \<longrightarrow>
      score_of (calculate_risk age bmi bp cholesterol glucose smoking)
        \<le> score_of (calculate_risk age bmi bp cholesterol' glucose smoking) \<and>
      severity (risk_level_of (calculate_risk age bmi bp cholesterol glucose smoking))
        \<le> severity (risk_level_of (calculate_risk age bmi bp cholesterol' glucose smoking))) \<and>
   (glucose_penalty glucose \<le> glucose_penalty glucose' \<longrightarrow>
      score_of (calculate_risk age bmi bp cholesterol glucose smoking)
        \<le> score_of (calculate_risk age bmi bp cholesterol glucose' smoking) \<and>
      severity (risk_level_of (calculate_risk age bmi bp cholesterol glucose smoking))
        \<le> severity (risk_level_of (calculate_risk age bmi bp cholesterol glucose' smoking))) \<and>
   (age_penalty age \<le> age_penalty age' \<longrightarrow>
      score_of (calculate_risk age bmi bp cholesterol glucose smoking)
        \<le> score_of (calculate_risk age' bmi bp cholesterol glucose smoking) \<and>
      severity (risk_level_of (calculate_risk age bmi bp cholesterol glucose smoking))
        \<le> severity (risk_level_of (calculate_risk age' bmi bp cholesterol glucose smoking))) \<and>
   (smoking_penalty smoking \<le> smoking_penalty smoking' \<longrightarrow>
      score_of (calculate_risk age bmi bp cholesterol glucose smoking)
        \<le> score_of (calculate_risk age bmi bp cholesterol glucose smoking') \<and>
      severity (risk_level_of (calculate_risk age bmi bp cholesterol glucose smoking))
        \<le> severity (risk_level_of (calculate_risk age bmi bp cholesterol glucose smoking')))"
proof (intro conjI impI)
  assume "bmi_penalty bmi \<le> bmi_penalty bmi'"
  then show "score_of (calculate_risk age bmi bp cholesterol glucose smoking)
      \<le> score_of (calculate_risk age bmi' bp cholesterol glucose smoking)"
    by (intro score_mono order_refl)
  then show "severity (risk_level_of (calculate_risk age bmi bp cholesterol glucose smoking))
      \<le> severity (risk_level_of (calculate_risk age bmi' bp cholesterol glucose smoking))"
    by (rule level_mono)
next
  assume "bp_penalty bp \<le> bp_penalty bp'"
  then show "score_of (calculate_risk age bmi bp cholesterol glucose smoking)
      \<le> score_of (calculate_risk age bmi bp' cholesterol glucose smoking)"
    by (intro score_mono order_refl)
  then show "severity (risk_level_of (calculate_risk age bmi bp cholesterol glucose smoking))
      \<le> severity (risk_level_of (calculate_risk age bmi bp' cholesterol glucose smoking))"
    by (rule level_mono)
next
  assume "cholesterol_penalty cholesterol \<le> cholesterol_penalty cholesterol'"
  then show "score_of (calculate_risk age bmi bp cholesterol glucose smoking)
      \<le> score_of (calculate_risk age bmi bp cholesterol' glucose smoking)"
    by (intro score_mono order_refl)
  then show "severity (risk_level_of (calculate_risk age bmi bp cholesterol glucose smoking))
      \<le> severity (risk_level_of (calculate_risk age bmi bp cholesterol' glucose smoking))"
    by (rule level_mono)
next
  assume "glucose_penalty glucose \<le> glucose_penalty glucose'"
  then show "score_of (calculate_risk age bmi bp cholesterol glucose smoking)
      \<le> score_of (calculate_risk age bmi bp cholesterol glucose' smoking)"
    by (intro score_mono order_refl)
  then show "severity (risk_level_of (calculate_risk age bmi bp cholesterol glucose smoking))
      \<le> severity (risk_level_of (calculate_risk age bmi bp cholesterol glucose' smoking))"
    by (rule level_mono)
next
  assume "age_penalty age \<le> age_penalty age'"
  then show "score_of (calculate_risk age bmi bp cholesterol glucose smoking)
      \<le> score_of (calculate_risk age' bmi bp cholesterol glucose smoking)"
    by (intro score_mono order_refl)
  then show "severity (risk_level_of (calculate_risk age bmi bp cholesterol glucose smoking))
      \<le> severity (risk_level_of (calculate_risk age' bmi bp cholesterol glucose smoking))"
    by (rule level_mono)
next
  assume "smoking_penalty smoking \<le> smoking_penalty smoking'"
  then show "score_of (calculate_risk age bmi bp cholesterol glucose smoking)
      \<le> score_of (calculate_risk age bmi bp cholesterol glucose smoking')"
    by (intro score_mono order_refl)
  then show "severity (risk_level_of (calculate_risk age bmi bp cholesterol glucose smoking))
      \<le> severity (risk_level_of (calculate_risk age bmi bp cholesterol glucose smoking'))"
    by (rule level_mono)
qed

theorem calculate_risk_monotone_witness:
  "bmi_penalty (Finite 22.0) \<le> bmi_penalty (Finite 27.5) \<and>
   bp_penalty 110 \<le> bp_penalty 150 \<and>
   cholesterol_penalty 180 \<le> cholesterol_penalty 250 \<and>
   glucose_penalty 85 \<le> glucose_penalty 130 \<and>
   age_penalty 25 \<le> age_penalty 50 \<and>
   smoking_penalty ''Non-smoker'' \<le> smoking_penalty ''Current smoker'' \<and>
   score_of (calculate_risk 25 (Finite 22.0) 110 180 85 ''Non-smoker'')
     \<le> score_of (calculate_risk 25 (Finite 27.5) 110 180 85 ''Non-smoker'') \<and>
   severity (risk_level_of (calculate_risk 25 (Finite 22.0) 110 180 85 ''Non-smoker''))
     \<le> severity (risk_level_of (calculate_risk 25 (Finite 27.5) 110 180 85 ''Non-smoker'')) \<and>
   score_of (calculate_risk 25 (Finite 22.0) 110 180 85 ''Non-smoker'')
     \<le> score_of (calculate_risk 25 (Finite 22.0) 150 180 85 ''Non-smoker'') \<and>
   severity (risk_level_of (calculate_risk 25 (Finite 22.0) 110 180 85 ''Non-smoker''))
     \<le> severity (risk_level_of (calculate_risk 25 (Finite 22.0) 150 180 85 ''Non-smoker'')) \<and>
   score_of (calculate_risk 25 (Finite 22.0) 110 180 85 ''Non-smoker'')
     \<le> score_of (calculate_risk 25 (Finite 22.0) 110 250 85 ''Non-smoker'') \<and>
   severity (risk_level_of (calculate_risk 25 (Finite 22.0) 110 180 85 ''Non-smoker''))
     \<le> severity (risk_level_of (calculate_risk 25 (Finite 22.0) 110 250 85 ''Non-smoker'')) \<and>
   score_of (calculate_risk 25 (Finite 22.0) 110 180 85 ''Non-smoker'')
     \<le> score_of (calculate_risk 25 (Finite 22.0) 110 180 130 ''Non-smoker'') \<and>
   severity (risk_level_of (calculate_risk 25 (Finite 22.0) 110 180 85 ''Non-smoker''))
     \<le> severity (risk_level_of (calculate_risk 25 (Finite 22.0) 110 180 130 ''Non-smoker'')) \<and>
   score_of (calculate_risk 25 (Finite 22.0) 110 180 85 ''Non-smoker'')
     \<le> score_of (calculate_risk 50 (Finite 22.0) 110 180 85 ''Non-smoker'') \<and>
   severity (risk_level_of (calculate_risk 25 (Finite 22.0) 110 180 85 ''Non-smoker''))
     \<le> severity (risk_level_of (calculate_risk 50 (Finite 22.0) 110 180 85 ''Non-smoker'')) \<and>
   score_of (calculate_risk 25 (Finite 22.0) 110 180 85 ''Non-smoker'')
     \<le> score_of (calculate_risk 25 (Finite 22.0) 110 180 85 ''Current smoker'') \<and>
   severity (risk_level_of (calculate_risk 25 (Finite 22.0) 110 180 85 ''Non-smoker''))
     \<le> severity (risk_level_of (calculate_risk 25 (Finite 22.0) 110 180 85 ''Current smoker''))"
proof -
  have h: "bmi_penalty (Finite 22.0) \<le> bmi_penalty (Finite 27.5)"
    "bp_penalty 110 \<le> bp_penalty 150"
    "cholesterol_penalty 180 \<le> cholesterol_penalty 250"
    "glucose_penalty 85 \<le> glucose_penalty 130"
    "age_penalty 25 \<le> age_penalty 50"
    "smoking_penalty ''Non-smoker'' \<le> smoking_penalty ''Current smoker''"
    by (simp_all add: bmi_penalty_eq bp_penalty_eq cholesterol_penalty_eq glucose_penalty_eq
        age_penalty_eq smoking_penalty_eq float_lit_nonneg)
  show ?thesis
    using h calculate_risk_monotone [of "Finite 22.0" "Finite 27.5" 25 110 180 85 "''Non-smoker''"
        150 250 130 50 "''Current smoker''"]
    by blast
qed

text \<open>
  C4. The worked examples: age 30, BMI 25.0, pressure 120, cholesterol 200, glucose 100,
  non-smoker scores 5.3, Moderate Risk, \<^verbatim>\<open>#F39C12\<close>; age 65, BMI 38.0, pressure 190,
  cholesterol 260, glucose 135, current smoker scores 16.2, High Risk; age 25, BMI 22.0,
  pressure 110, cholesterol 180, glucose 85, non-smoker scores 0.0, Low Risk,
  \<^verbatim>\<open>#27AE60\<close>. The scores are floats: 5.3 is the float the literal \<^verbatim>\<open>5.3\<close> denotes.
\<close>

theorem calculate_risk_worked_examples:
  "score_of (calculate_risk 30 (Finite 25.0) 120 200 100 ''Non-smoker'') = float_lit 5.3 \<and>
   risk_level_of (calculate_risk 30 (Finite 25.0) 120 200 100 ''Non-smoker'') = ''Moderate Risk'' \<and>
   color_of (calculate_risk 30 (Finite 25.0) 120 200 100 ''Non-smoker'') = ''#F39C12'' \<and>
   score_of (calculate_risk 65 (Finite 38.0) 190 260 135 ''Current smoker'') = float_lit 16.2 \<and>
   risk_level_of (calculate_risk 65 (Finite 38.0) 190 260 135 ''Current smoker'') = ''High Risk'' \<and>
   score_of (calculate_risk 25 (Finite 22.0) 110 180 85 ''Non-smoker'') = float_lit 0.0 \<and>
   risk_level_of (calculate_risk 25 (Finite 22.0) 110 180 85 ''Non-smoker'') = ''Low Risk'' \<and>
   color_of (calculate_risk 25 (Finite 22.0) 110 180 85 ''Non-smoker'') = ''#27AE60''"
proof -
  have 1: "calculate_risk 30 (Finite 25.0) 120 200 100 ''Non-smoker'' =
    (''Moderate Risk'', ''#F39C12'', float_lit 5.3,
     snd (snd (snd (calculate_risk 30 (Finite 25.0) 120 200 100 ''Non-smoker''))))"
    by (simp add: calculate_risk_eval risk_level_color_def)
  have 2: "calculate_risk 65 (Finite 38.0) 190 260 135 ''Current smoker'' =
    (''High Risk'', ''#E74C3C'', float_lit 16.2,
     snd (snd (snd (calculate_risk 65 (Finite 38.0) 190 260 135 ''Current smoker''))))"
    by (simp add: calculate_risk_eval risk_level_color_def)
  have 3: "calculate_risk 25 (Finite 22.0) 110 180 85 ''Non-smoker'' =
    (''Low Risk'', ''#27AE60'', float_lit 0.0,
     snd (snd (snd (calculate_risk 25 (Finite 22.0) 110 180 85 ''Non-smoker''))))"
    by (simp add: calculate_risk_eval risk_level_color_def)
  have a: "score_of (calculate_risk 30 (Finite 25.0) 120 200 100 ''Non-smoker'') = float_lit 5.3"
    "risk_level_of (calculate_risk 30 (Finite 25.0) 120 200 100 ''Non-smoker'') = ''Moderate Risk''"
    "color_of (calculate_risk 30 (Finite 25.0) 120 200 100 ''Non-smoker'') = ''#F39C12''"
    by (subst 1, simp add: score_of_def risk_level_of_def color_of_def)+
  have b: "score_of (calculate_risk 65 (Finite 38.0) 190 260 135 ''Current smoker'') = float_lit 16.2"
    "risk_level_of (calculate_risk 65 (Finite 38.0) 190 260 135 ''Current smoker'') = ''High Risk''"
    by (subst 2, simp add: score_of_def risk_level_of_def color_of_def)+
  have c: "score_of (calculate_risk 25 (Finite 22.0) 110 180 85 ''Non-smoker'') = float_lit 0.0"
    "risk_level_of (calculate_risk 25 (Finite 22.0) 110 180 85 ''Non-smoker'') = ''Low Risk''"
    "color_of (calculate_risk 25 (Finite 22.0) 110 180 85 ''Non-smoker'') = ''#27AE60''"
    by (subst 3, simp add: score_of_def risk_level_of_def color_of_def)+
  from a b c show ?thesis by (intro conjI)
qed

text \<open>
  C5. For every input the returned recommendations end with the same five general lines
  (aerobic activity, hydration and diet, sleep, stress, check-ups), in this order, as the
  last five elements.
\<close>

theorem calculate_risk_general_recommendations_last:
  "(let recommendations = recommendations_of (calculate_risk age bmi bp cholesterol glucose smoking) in
     5 \<le> length recommendations \<and>
     drop (length recommendations - 5) recommendations =
       [''Engage in at least 150 minutes of moderate aerobic activity per week.'',
        ''Stay hydrated and maintain a balanced diet rich in fruits, vegetables, and whole grains.'',
        ''Get 7-9 hours of quality sleep each night.'',
        ''Manage stress through relaxation techniques, meditation, or hobbies.'',
        ''Schedule regular check-ups with your healthcare provider.''])"
proof -
  define specific where "specific = snd (smoking_factor smoking
       (age_factor age
         (glucose_assessment glucose
           (cholesterol_assessment cholesterol
             (bp_assessment bp
               (bmi_assessment bmi (0, [])))))))"
  have r: "recommendations_of (calculate_risk age bmi bp cholesterol glucose smoking) =
      specific @ general_recommendations"
    by (simp add: recommendations_of_calculate_risk specific_def)
  have "drop (length (specific @ general_recommendations) - 5) (specific @ general_recommendations)
      = general_recommendations"
    by (simp add: length_general_recommendations)
  then show ?thesis
    unfolding Let_def r by (simp add: length_general_recommendations general_recommendations_def)
qed

text \<open>
  C6. For every input the returned list has at least 6 recommendations, and
  \<^verbatim>\<open>generate_pdf\<close> writes as numbered items the first 10 recommendations at most: item
  \<open>i\<close> is the text \<^verbatim>\<open>i. rec\<close> of the \<open>i\<close>-th recommendation, for \<open>i\<close> from 1 to 10, and
  whatever follows the tenth leaves no trace in the calls.
\<close>

theorem recommendations_count_and_truncation:
  "6 \<le> length (recommendations_of (calculate_risk age bmi bp cholesterol glucose smoking)) \<and>
   multi_cell_texts (generate_pdf_recommendations recommendations) =
     map (\<lambda>(i, rec). str_nat i @ ''. '' @ rec) (zip [1..<11] recommendations) \<and>
   length (multi_cell_texts (generate_pdf_recommendations recommendations)) =
     min 10 (length recommendations) \<and>
   generate_pdf_recommendations recommendations =
     generate_pdf_recommendations (take 10 recommendations) \<and>
   str_nat 1 = ''1'' \<and> str_nat 10 = ''10''"
proof -
  have a: "6 \<le> length (recommendations_of (calculate_risk age bmi bp cholesterol glucose smoking))"
    by (simp add: length_recommendations)
  have e: "enumerate 1 (take 10 recommendations) = zip [1..<11] recommendations"
    using enumerate_take [of 1 10 recommendations] by simp
  have b: "multi_cell_texts (generate_pdf_recommendations recommendations) =
     map (\<lambda>(i, rec). str_nat i @ ''. '' @ rec) (zip [1..<11] recommendations)"
    unfolding generate_pdf_recommendations_def e
    by (simp add: multi_cell_texts_recommendation_calls)
  have c: "length (multi_cell_texts (generate_pdf_recommendations recommendations)) =
     min 10 (length recommendations)"
    unfolding b by simp
  have d: "generate_pdf_recommendations recommendations =
     generate_pdf_recommendations (take 10 recommendations)"
    by (simp add: generate_pdf_recommendations_def)
  have s1: "str_nat 1 = ''1''" by code_simp
  have s2: "str_nat 10 = ''10''" by code_simp
  note s = s1 s2
  from a b c d s show ?thesis by (intro conjI)
qed

text \<open>
  C8. For every input the score is at least 0.0: each of the six penalties is
  nonnegative, and the accumulator, started at 0.0, never goes down from one chain to the
  next on its way to the returned score.
\<close>

theorem calculate_risk_score_nonneg:
  "0 \<le> score_of (calculate_risk age bmi bp cholesterol glucose smoking) \<and>
   0 \<le> bmi_penalty bmi \<and> 0 \<le> bp_penalty bp \<and> 0 \<le> cholesterol_penalty cholesterol \<and>
   0 \<le> glucose_penalty glucose \<and> 0 \<le> age_penalty age \<and> 0 \<le> smoking_penalty smoking \<and>
   hd (accumulator_trace age bmi bp cholesterol glucose smoking) = 0 \<and>
   sorted (accumulator_trace age bmi bp cholesterol glucose smoking) \<and>
   last (accumulator_trace age bmi bp cholesterol glucose smoking) =
     score_of (calculate_risk age bmi bp cholesterol glucose smoking)"
proof -
  have "0 \<le> score_of (calculate_risk age bmi bp cholesterol glucose smoking)"
    unfolding score_of_calculate_risk
    by (intro fadd_nonneg bmi_penalty_nonneg bp_penalty_nonneg cholesterol_penalty_nonneg
        glucose_penalty_nonneg age_penalty_nonneg smoking_penalty_nonneg order_refl)
  moreover have "hd (accumulator_trace age bmi bp cholesterol glucose smoking) = 0"
    by (simp add: accumulator_trace_eq)
  ultimately show ?thesis
    using sorted_accumulator_trace [of age bmi bp cholesterol glucose smoking]
      score_of_last_accumulator [of age bmi bp cholesterol glucose smoking]
    by (simp add: bmi_penalty_nonneg bp_penalty_nonneg cholesterol_penalty_nonneg
        glucose_penalty_nonneg age_penalty_nonneg smoking_penalty_nonneg)
qed

text \<open>
  C9. For every systolic pressure, \<^verbatim>\<open>calculate_bp_category\<close> and the blood-pressure chain
  of \<^verbatim>\<open>calculate_risk\<close> pick the same one of the six buckets cut at 90, 120, 130, 140
  and 180: the label is the entry of that bucket in the label table, the score update
  and advice are the entry of that bucket in the scoring table, and neither table
  repeats an entry.
\<close>

theorem bp_category_agrees_with_scoring:
  "bp_bucket bp < 6 \<and>
   calculate_bp_category bp = bp_category_table ! bp_bucket bp \<and>
   bp_assessment bp (risk_score, recommendations) =
     score_bucket (bp_scoring_table ! bp_bucket bp) (risk_score, recommendations) \<and>
   length bp_category_table = 6 \<and> distinct bp_category_table \<and>
   length bp_scoring_table = 6 \<and> distinct (map snd bp_scoring_table)"
proof -
  have a: "bp_bucket bp < 6" by (simp add: bp_bucket_eq)
  have b: "calculate_bp_category bp = bp_category_table ! bp_bucket bp"
    by (simp add: bp_bucket_eq calculate_bp_category_def bp_category_table_def)
  have c: "bp_assessment bp (risk_score, recommendations) =
     score_bucket (bp_scoring_table ! bp_bucket bp) (risk_score, recommendations)"
    by (simp add: bp_bucket_eq bp_assessment_def bp_scoring_table_def score_bucket_def)
  have d: "length bp_category_table = 6" "distinct bp_category_table"
    by (simp_all add: bp_category_table_def)
  have e: "length bp_scoring_table = 6" "distinct (map snd bp_scoring_table)"
    by (simp_all add: bp_scoring_table_def)
  from a b c d e show ?thesis by (intro conjI)
qed

text \<open>
  C10. For every input, also outside the form's ranges, the score is at most 16.2, the
  sum 3.5 + 4.0 + 2.5 + 3.0 + 1.2 + 2.0 of the largest penalties of the six factors:
  at most the float 16.2, which is what that sum comes to in float arithmetic, and so at
  most the number 16.2.
\<close>

theorem calculate_risk_score_upper_bound:
  "score_of (calculate_risk age bmi bp cholesterol glucose smoking) \<le> float_lit 16.2 \<and>
   score_of (calculate_risk age bmi bp cholesterol glucose smoking) \<le> 16.2 \<and>
   bmi_penalty bmi \<le> 3.5 \<and> bp_penalty bp \<le> 4.0 \<and> cholesterol_penalty cholesterol \<le> 2.5 \<and>
   glucose_penalty glucose \<le> 3.0 \<and> age_penalty age \<le> float_lit 1.2 \<and>
   smoking_penalty smoking \<le> 2.0 \<and>
   fadd (fadd (fadd (fadd (fadd (fadd (float_lit 0.0) (float_lit 3.5)) (float_lit 4.0))
     (float_lit 2.5)) (float_lit 3.0)) (float_lit 1.2)) (float_lit 2.0) = float_lit 16.2"
proof -
  have b: "bmi_penalty bmi \<le> 7 / 2" by (simp add: bmi_penalty_eq)
  have p: "bp_penalty bp \<le> 4" by (simp add: bp_penalty_eq)
  have c: "cholesterol_penalty cholesterol \<le> 5 / 2" by (simp add: cholesterol_penalty_eq)
  have g: "glucose_penalty glucose \<le> 3" by (simp add: glucose_penalty_eq)
  have s: "smoking_penalty smoking \<le> 2" by (simp add: smoking_penalty_eq)
  have "score_of (calculate_risk age bmi bp cholesterol glucose smoking)
      \<le> fadd (fadd (fadd (fadd (fadd (fadd 0 (7 / 2)) 4) (5 / 2)) 3) (float_lit 1.2)) 2"
    unfolding score_of_calculate_risk
    by (intro fadd_mono fadd_nonneg b p c g s age_penalty_le bmi_penalty_nonneg bp_penalty_nonneg
      cholesterol_penalty_nonneg glucose_penalty_nonneg age_penalty_nonneg
      smoking_penalty_nonneg order_refl)
  then have le: "score_of (calculate_risk age bmi bp cholesterol glucose smoking) \<le> float_lit 16.2"
    by (simp only: max_score)
  have "float_lit 16.2 \<le> (16.2 :: rat)"
    by (simp add: float_lit_def round_double_values)
  with le have le': "score_of (calculate_risk age bmi bp cholesterol glucose smoking) \<le> 16.2"
    by (rule order_trans)
  have m: "fadd (fadd (fadd (fadd (fadd (fadd (float_lit 0.0) (float_lit 3.5)) (float_lit 4.0))
     (float_lit 2.5)) (float_lit 3.0)) (float_lit 1.2)) (float_lit 2.0) = float_lit 16.2"
    by (simp add: fadd_def float_lit_def round_double_values)
  from le le' b p c g s age_penalty_le [of age] m show ?thesis by simp
qed

end
